theory Spec2Isabelle
  imports Complex_Main "HOL-Library.AList"
begin

section \<open>JavaScript values and string built-ins\<close>

text \<open>
  The source is \<^verbatim>\<open>src/dfpFiles/adSlot.js\<close>: the class \<^verbatim>\<open>AdSlot\<close> followed by the class
  \<^verbatim>\<open>AdManager\<close>. Strings are character lists; a JavaScript exception is a value of
  type \<open>error\<close>, and a function that can throw returns \<open>error + 'a\<close>.
\<close>

datatype error =
    TypeError
  | Error string

text \<open>
  The values an admission check can return: the operands of the \<^verbatim>\<open>&&\<close> chain are
  booleans, \<^verbatim>\<open>undefined\<close>, strings and numbers, and the \<^verbatim>\<open>catch\<close> branch returns
  \<^verbatim>\<open>null\<close>.
\<close>

datatype jsval =
    JUndefined
  | JNull
  | JBool bool
  | JNum int
  | JStr string
  | JObject

fun truthy :: "jsval \<Rightarrow> bool" where
  "truthy JUndefined = False"
| "truthy JNull = False"
| "truthy (JBool b) = b"
| "truthy (JNum n) = (n \<noteq> 0)"
| "truthy (JStr s) = (s \<noteq> [])"
| "truthy JObject = True"

text \<open>
  A chain \<^verbatim>\<open>a && b && ...\<close>: the value of the first falsy operand, else the value of
  the last one; an operand that throws is reached only when every operand before it is
  truthy.
\<close>

fun allOf :: "(error + jsval) list \<Rightarrow> error + jsval" where
  "allOf [] = Inr (JBool True)"
| "allOf [x] = x"
| "allOf (x # y # ys) =
     (case x of
        Inl e \<Rightarrow> Inl e
      | Inr v \<Rightarrow> if truthy v then allOf (y # ys) else Inr v)"

definition ofBool :: "bool \<Rightarrow> error + jsval" where
  "ofBool b = Inr (JBool b)"

definition ofResult :: "error + bool \<Rightarrow> error + jsval" where
  "ofResult r = (case r of Inl e \<Rightarrow> Inl e | Inr b \<Rightarrow> Inr (JBool b))"

text \<open>\<^verbatim>\<open>String.prototype.indexOf\<close> and \<^verbatim>\<open>String.prototype.includes\<close>.\<close>

fun startsWith :: "string \<Rightarrow> string \<Rightarrow> bool" where
  "startsWith s [] = True"
| "startsWith [] (k # ks) = False"
| "startsWith (c # cs) (k # ks) = (c = k \<and> startsWith cs ks)"

fun indexOfFrom :: "nat \<Rightarrow> string \<Rightarrow> string \<Rightarrow> int" where
  "indexOfFrom i [] key = (if key = [] then int i else - 1)"
| "indexOfFrom i (c # cs) key =
     (if startsWith (c # cs) key then int i else indexOfFrom (Suc i) cs key)"

definition str_indexOf :: "string \<Rightarrow> string \<Rightarrow> int" where
  "str_indexOf s key = indexOfFrom 0 s key"

definition str_includes :: "string \<Rightarrow> string \<Rightarrow> bool" where
  "str_includes s key = (str_indexOf s key \<noteq> - 1)"

text \<open>
  The relational operator \<^verbatim>\<open><\<close> on two strings: lexicographic on the code units
  (here: on the character codes).
\<close>

fun str_less :: "string \<Rightarrow> string \<Rightarrow> bool" where
  "str_less [] [] = False"
| "str_less [] (y # ys) = True"
| "str_less (x # xs) [] = False"
| "str_less (x # xs) (y # ys) =
     (if (of_char x :: nat) < of_char y then True
      else if (of_char y :: nat) < of_char x then False
      else str_less xs ys)"

section \<open>The priority scheduler: \<^verbatim>\<open>AdManager.sortSlots\<close>\<close>

text \<open>
  \<^verbatim>\<open>sortSlots(First, Second)\<close>, lines 713-733. In the third test the source reads
  \<^verbatim>\<open>First[0].includes(key)\<close>: \<^verbatim>\<open>First[0]\<close> is the one-character string at index 0,
  and \<^verbatim>\<open>undefined\<close> when \<^verbatim>\<open>First\<close> is empty, where the method call throws a
  TypeError.
\<close>

definition sortSlots :: "string \<Rightarrow> string \<Rightarrow> error + int" where
  "sortSlots First Second =
     (let key = ''billboard'' in
      if str_includes First key \<and> str_includes Second key then
        (let result = str_indexOf First key - str_indexOf Second key in
         if result \<noteq> 0 then Inr result
         else if str_less First Second then Inr (- 1)
         else if str_less Second First then Inr 1
         else Inr 0)
      else if str_includes First key \<and> \<not> str_includes Second key then Inr (- 1)
      else
        (case First of
           [] \<Rightarrow> Inl TypeError
         | c # cs \<Rightarrow>
             if \<not> str_includes [c] key \<and> str_includes Second key then Inr 1
             else Inr 0))"

text \<open>
  \<^verbatim>\<open>Array.prototype.sort(compareFn)\<close> is a built-in; ECMAScript requires it to be
  stable and leaves the order of the comparisons to the engine. It is modelled by a
  stable insertion sort that stops at the first exception of the comparator: each
  element is inserted into the sorted elements before it, and the comparator is called
  with the later element first, as an engine's insertion does. \<open>insertBy\<close> takes the
  sorted elements in reverse, nearest first.
\<close>

fun insertBy :: "('a \<Rightarrow> 'a \<Rightarrow> error + int) \<Rightarrow> 'a \<Rightarrow> 'a list \<Rightarrow> error + 'a list" where
  "insertBy cmp pivot [] = Inr [pivot]"
| "insertBy cmp pivot (y # ys) =
     (case cmp pivot y of
        Inl e \<Rightarrow> Inl e
      | Inr order \<Rightarrow>
          if order < 0 then
            (case insertBy cmp pivot ys of Inl e \<Rightarrow> Inl e | Inr zs \<Rightarrow> Inr (y # zs))
          else Inr (pivot # y # ys))"

fun sortInto ::
    "('a \<Rightarrow> 'a \<Rightarrow> error + int) \<Rightarrow> 'a list \<Rightarrow> 'a list \<Rightarrow> error + 'a list" where
  "sortInto cmp before [] = Inr (rev before)"
| "sortInto cmp before (x # xs) =
     (case insertBy cmp x before of
        Inl e \<Rightarrow> Inl e
      | Inr before' \<Rightarrow> sortInto cmp before' xs)"

definition sortWith :: "('a \<Rightarrow> 'a \<Rightarrow> error + int) \<Rightarrow> 'a list \<Rightarrow> error + 'a list" where
  "sortWith cmp xs = sortInto cmp [] xs"

text \<open>The decimal form of a number in a template literal.\<close>

function showNat :: "nat \<Rightarrow> string" where
  "showNat n =
     (if n < 10 then [''0123456789'' ! n]
      else showNat (n div 10) @ [''0123456789'' ! (n mod 10)])"
  by pat_completeness auto
termination
  by (relation "measure (\<lambda>n. n)") auto

definition showInt :: "int \<Rightarrow> string" where
  "showInt i = (if i < 0 then CHR ''-'' # showNat (nat (- i)) else showNat (nat i))"

section \<open>Data model\<close>

text \<open>The exported enumerations \<^verbatim>\<open>adTargets\<close> and \<^verbatim>\<open>adTypes\<close>, lines 499-517.\<close>

definition adTargets_all :: string where "adTargets_all = ''all''"
definition adTargets_nonPaying :: string where "adTargets_nonPaying = ''nonPaying''"
definition adTargets_anonymous :: string where "adTargets_anonymous = ''anonymous''"
definition adTargets_registered :: string where "adTargets_registered = ''registered''"
definition adTargets_paying :: string where "adTargets_paying = ''paying''"
definition adTargets_digitalOnly :: string where "adTargets_digitalOnly = ''digitalOnly''"
definition adTargets_digitalAndPrint :: string where
  "adTargets_digitalAndPrint = ''digitalAndPrint''"

definition adTypes_maavaron :: string where "adTypes_maavaron = ''.maavaron''"
definition adTypes_interstitial :: string where "adTypes_interstitial = ''.new_interstitial''"
definition adTypes_interstitialSmall :: string where
  "adTypes_interstitialSmall = ''.interstitial.mobile''"
definition adTypes_interstitialFull :: string where
  "adTypes_interstitialFull = ''.full_interstitial.mobile''"
definition adTypes_popunder :: string where "adTypes_popunder = ''.popunder''"
definition adTypes_talkback :: string where "adTypes_talkback = ''.talkback''"
definition adTypes_regular :: string where "adTypes_regular = ''regular''"

text \<open>
  The interstitial constants, lines 466-469. Times are hours; they are kept as exact
  rationals. A timestamp is an integer number of milliseconds, and on such operands the
  source's double-precision comparisons agree with the exact ones: the quotient by
  \<^verbatim>\<open>36e5\<close> is correctly rounded, hence monotone, and at the two boundaries
  (3000 ms and 3780000 ms) it rounds to the very doubles the literals \<^verbatim>\<open>3 / 3600\<close>
  and \<^verbatim>\<open>1.05\<close> denote.
\<close>

definition GOOGLE_INTERSTITIAL_TIME :: rat where "GOOGLE_INTERSTITIAL_TIME = 105 / 100"
definition GOOGLE_INTERSTITIAL_MIN_TIME :: rat where "GOOGLE_INTERSTITIAL_MIN_TIME = 3 / 3600"
definition HOUR_IN_MILLISECONDS :: rat where "HOUR_IN_MILLISECONDS = 3600000"

text \<open>
  A DOM element, as far as the source reads it: the attribute \<^verbatim>\<open>data-audtarget\<close>.
\<close>

record element =
  data_audtarget :: "string option"

text \<open>
  One item of a size list: a list of numbers such as \<^verbatim>\<open>[300, 250]\<close>, the list
  \<^verbatim>\<open>['fluid']\<close> or the string \<^verbatim>\<open>'fluid'\<close>. A value stored under a breakpoint name in
  \<^verbatim>\<open>responsiveAdSizeMapping\<close> is an array of such items, or something that is not an
  array.
\<close>

datatype size_item =
    Dims "int list"
  | FluidList
  | FluidName

datatype size_entry =
    SizeArray "size_item list"
  | NotAnArray

text \<open>
  \<^verbatim>\<open>lastResolvedSize\<close>: \<^verbatim>\<open>undefined\<close> before the first render, the resolver's
  \<^verbatim>\<open>EMPTY_SIZE\<close>, or the size the creative came back with.
\<close>

datatype resolvedSize =
    NotResolved
  | EMPTY_SIZE
  | ResolvedSize "int list"

text \<open>
  What \<^verbatim>\<open>defineSlot\<close> returns and \<^verbatim>\<open>this.slot\<close> holds: the AdSlot itself (the
  early \<^verbatim>\<open>return this\<close>), a slot of the rendering backend, a passback slot, or
  \<^verbatim>\<open>null\<close>.
\<close>

datatype handle =
    ThisAdSlot
  | GptSlot string
  | PassbackSlot string
  | NullSlot

text \<open>
  The fields of an \<^verbatim>\<open>AdSlot\<close> (constructor, lines 50-104). \<open>type_slot\<close> is
  \<^verbatim>\<open>this.type\<close>: \<open>None\<close> stands for \<^verbatim>\<open>undefined\<close>. \<open>responsiveAdSizeMapping\<close> is
  \<open>None\<close> when the configuration has none; its keys keep their order.
\<close>

record adSlot =
  id_slot :: string
  type_slot :: "string option"
  target :: string
  responsive :: bool
  fluid :: bool
  htmlElement :: "element option"
  deferredSlot :: bool
  isWebView_slot :: bool
  responsiveAdSizeMapping :: "(string \<times> size_entry) list option"
  blacklistReferrers :: "string list"
  whitelistReferrers :: "string list"
  shown :: bool
  lastResolvedSize :: resolvedSize
  lastResolvedWithBreakpoint :: "int option"
  slot :: "handle option"

text \<open>
  The durable throttle record under the key \<^verbatim>\<open>interstitial_DFP\<close>, as
  \<^verbatim>\<open>JSON.parse\<close> reads it: \<open>attempt\<close> is a number or missing, \<open>showTime\<close> is missing or
  a string, which \<^verbatim>\<open>new Date(...)\<close> turns into a timestamp in milliseconds or into an
  invalid date (\<open>None\<close>). A stored string is empty, not JSON, or the JSON of such a
  record.
\<close>

datatype showTimeField =
    NoShowTime
  | ShowTimeString "int option"

record throttleRecord =
  attempt :: "int option"
  showTime :: showTimeField

datatype storedItem =
    EmptyString
  | Malformed
  | Json throttleRecord

text \<open>
  The paywall state under the key \<^verbatim>\<open>_cobj\<close>, as \<^verbatim>\<open>JSON.parse\<close> reads it: \<open>mc\<close> is a
  number and \<open>nextslotLocation\<close> a string, and each of them can also be missing or the
  JSON value \<^verbatim>\<open>null\<close>.
\<close>

datatype 'a jsonField =
    Missing
  | JsonNull
  | Present 'a

record paywallBanner =
  mc :: "int jsonField"
  nextslotLocation :: "string jsonField"

datatype storedCobj =
    CobjAbsent
  | CobjMalformed
  | CobjParsed paywallBanner

text \<open>
  The world outside the two classes, as they read it: the document, the two storages,
  the clock (\<open>clock\<close> is the value of \<^verbatim>\<open>new Date()\<close> in milliseconds), the cookies,
  the configuration module, the breakpoint utilities
  (\<^verbatim>\<open>../utils/breakpoints\<close>, not part of the source file: \<open>currentBreakpoint\<close> is the
  value of \<^verbatim>\<open>getBreakpoint(breakpoints)\<close> and \<open>getBreakpointName\<close> the function of that
  name applied to the shared breakpoint table), the constants \<^verbatim>\<open>UserTypes\<close> of the
  package \<^verbatim>\<open>@haaretz/htz-user-utils\<close>, and whether the rendering backend returns a slot
  for an id.
\<close>

record env =
  getElementById :: "string \<Rightarrow> element option"
  documentReferrer :: string
  configReferrer :: string
  userAgent :: string
  locationPathname :: string
  clock :: int
  localInterstitial :: "storedItem option"
  sessionInterstitial :: "string option"
  localCobj :: storedCobj
  ssoUserName :: string
  cookieUser :: "string option"
  googletagApiReady :: bool
  siteNumber :: int
  currentBreakpoint :: int
  getBreakpointName :: "int \<Rightarrow> string"
  UserTypes_anonymous :: string
  UserTypes_registered :: string
  UserTypes_paying :: string
  gptReturnsSlot :: "string \<Rightarrow> bool"

text \<open>
  Calls that leave the two classes: commands queued with \<^verbatim>\<open>googletag.cmd.push\<close>
  (the body runs when the backend takes it from the queue), timers, and calls of the
  rendering backend. Slots are named by their address in the store.
\<close>

datatype event =
    CmdShow nat
  | CmdHide nat
  | SetTimeoutWrite nat "int option"
  | SetTargetingUser string
  | DefinePassback string
  | PassbackDisplay string
  | GptDefine bool string
  | AddSize string "size_item list"

text \<open>
  The conflict resolver (\<^verbatim>\<open>./conflictResolver\<close>) is not part of the source file. Its
  set \<^verbatim>\<open>deferredSlots\<close> is iterated and deleted from in the source, so it is a field
  here (in insertion order, as a JavaScript \<^verbatim>\<open>Set\<close> iterates); the rest of its state
  is the type parameter, and its methods are parameters of the model.
\<close>

record 'c conflictResolver =
  deferredSlots :: "string list"
  internals :: 'c

record 'c resolverCode =
  isBlocked :: "'c conflictResolver \<Rightarrow> string \<Rightarrow> error + bool"
  isBlocking :: "'c conflictResolver \<Rightarrow> string \<Rightarrow> error + bool"
  getBlockedSlotsIds :: "'c conflictResolver \<Rightarrow> string \<Rightarrow> error + string list"
  updateResolvedSlot ::
    "'c conflictResolver \<Rightarrow> string \<Rightarrow> resolvedSize \<Rightarrow> error + 'c conflictResolver"

text \<open>
  The \<^verbatim>\<open>AdManager\<close> (constructor, lines 520-566). AdSlot objects are shared between
  the registry \<^verbatim>\<open>this.adSlots\<close> (a \<^verbatim>\<open>Map\<close> from id to object) and the callers, and
  they are mutated in place: the objects live in \<open>heap\<close>, and the registry holds
  addresses. \<open>events\<close> collects the calls that leave the classes, latest last.
\<close>

record 'c adManager =
  isReadyToRenderExternals :: bool
  isWebView :: bool
  userType :: string
  configSite :: string
  adBlockRemoved :: bool
  isValidForsmartPhone :: bool
  conflictResolver :: "'c conflictResolver"
  adSlots :: "(string \<times> nat) list"
  heap :: "nat \<Rightarrow> adSlot"
  interstitialTimeoutMultiplier :: nat
  events :: "event list"

section \<open>AdSlot: the predicates of a slot\<close>

text \<open>
  \<^verbatim>\<open>isMobile\<close>, lines 163-167: a case-insensitive search of the user agent for one of
  eight words.
\<close>

definition lowerChar :: "char \<Rightarrow> char" where
  "lowerChar c =
     (let n = (of_char c :: nat) in if 65 \<le> n \<and> n \<le> 90 then char_of (n + 32) else c)"

definition isMobile :: "env \<Rightarrow> bool" where
  "isMobile e =
     (let ua = map lowerChar (userAgent e) in
      list_ex (\<lambda>w. str_includes ua (map lowerChar w))
        [''Android'', ''webOS'', ''iPhone'', ''iPad'', ''iPod'', ''BlackBerry'',
         ''IEMobile'', ''Opera Mini''])"

text \<open>
  \<^verbatim>\<open>isOutOfPage\<close>, lines 111-130. With an undefined type the guard reads
  \<^verbatim>\<open>this.type.length\<close> and throws a TypeError.
\<close>

definition isOutOfPage :: "env \<Rightarrow> adSlot \<Rightarrow> error + bool" where
  "isOutOfPage e s =
     (case type_slot s of
        None \<Rightarrow> Inl TypeError
      | Some t \<Rightarrow>
          if isMobile e = True then Inr (t = adTypes_interstitial)
          else if t = adTypes_maavaron then Inr False
          else if t = adTypes_popunder then Inr True
          else if t = adTypes_talkback then Inr False
          else if t = adTypes_regular then Inr False
          else Inr False)"

text \<open>\<^verbatim>\<open>isMaavaron\<close>, lines 137-150.\<close>

definition isMaavaron :: "env \<Rightarrow> adSlot \<Rightarrow> error + bool" where
  "isMaavaron e s =
     (case type_slot s of
        None \<Rightarrow> Inl (Error ''An adSlot cannot by typeless!'')
      | Some t \<Rightarrow>
          if isMobile e = True then Inr False
          else if t = adTypes_maavaron then Inr False
          else Inr False)"

text \<open>\<^verbatim>\<open>isInterstitial\<close>, lines 152-160.\<close>

definition isInterstitial :: "env \<Rightarrow> adSlot \<Rightarrow> error + bool" where
  "isInterstitial e s =
     (case type_slot s of
        None \<Rightarrow> Inl (Error ''An adSlot cannot by typeless!'')
      | Some t \<Rightarrow>
          if isMobile e then Inr (t = adTypes_interstitial)
          else Inr False)"

text \<open>\<^verbatim>\<open>isWhitelisted\<close> and \<^verbatim>\<open>isBlacklisted\<close>, lines 176-209.\<close>

definition isWhitelisted :: "env \<Rightarrow> adSlot \<Rightarrow> bool" where
  "isWhitelisted e s =
     (if whitelistReferrers s \<noteq> [] then
        list_ex (\<lambda>r. str_indexOf (configReferrer e) r > - 1) (whitelistReferrers s)
      else True)"

definition isBlacklisted :: "env \<Rightarrow> adSlot \<Rightarrow> bool" where
  "isBlacklisted e s =
     (if blacklistReferrers s \<noteq> [] then
        list_ex (\<lambda>r. str_indexOf (configReferrer e) r > - 1) (blacklistReferrers s)
      else False)"

section \<open>AdManager: the throttle policy\<close>

text \<open>\<^verbatim>\<open>isReferrerOfHaaretz\<close>, lines 858-863, and \<^verbatim>\<open>userIsPaying\<close>, lines 1044-1048.\<close>

definition isReferrerOfHaaretz :: "env \<Rightarrow> bool" where
  "isReferrerOfHaaretz e =
     (str_includes (documentReferrer e) ''haaretz.co'' \<or>
      str_includes (documentReferrer e) ''themarker.com'')"

definition userIsPaying :: "'c adManager \<Rightarrow> bool" where
  "userIsPaying m = (userType m = adTargets_paying)"

text \<open>
  Truthiness of what \<^verbatim>\<open>getItem\<close> returns (\<^verbatim>\<open>null\<close> or a string), and
  \<^verbatim>\<open>getParsed\<close>, lines 908-922: the empty object for a falsy value and for text that
  \<^verbatim>\<open>JSON.parse\<close> rejects.
\<close>

definition itemTruthy :: "storedItem option \<Rightarrow> bool" where
  "itemTruthy item = (case item of None \<Rightarrow> False | Some EmptyString \<Rightarrow> False | Some _ \<Rightarrow> True)"

definition stringTruthy :: "string option \<Rightarrow> bool" where
  "stringTruthy item = (case item of None \<Rightarrow> False | Some s \<Rightarrow> s \<noteq> [])"

definition emptyObject :: throttleRecord where
  "emptyObject = \<lparr>attempt = None, showTime = NoShowTime\<rparr>"

definition getParsed :: "storedItem option \<Rightarrow> throttleRecord" where
  "getParsed v =
     (case v of
        None \<Rightarrow> emptyObject
      | Some EmptyString \<Rightarrow> emptyObject
      | Some Malformed \<Rightarrow> emptyObject
      | Some (Json r) \<Rightarrow> r)"

text \<open>
  \<^verbatim>\<open>Math.abs(now - new Date(showTime)) / HOUR_IN_MILLISECONDS\<close>: \<open>None\<close> is NaN, the
  result for an invalid date; every comparison with NaN is false.
\<close>

definition hoursSince :: "int \<Rightarrow> int option \<Rightarrow> rat option" where
  "hoursSince now shown_at =
     (case shown_at of
        None \<Rightarrow> None
      | Some t \<Rightarrow> Some (of_int \<bar>now - t\<bar> / HOUR_IN_MILLISECONDS))"

definition inInterstitialWindow :: "rat option \<Rightarrow> bool" where
  "inInterstitialWindow time =
     (case time of
        None \<Rightarrow> False
      | Some h \<Rightarrow> h < GOOGLE_INTERSTITIAL_TIME \<and> h > GOOGLE_INTERSTITIAL_MIN_TIME)"

text \<open>
  \<^verbatim>\<open>setInterstitialShowingData(now)\<close>, lines 1011-1038: it starts a timer and raises
  the multiplier; \<open>writeInterstitialShowingData\<close> is the timer's callback.
\<close>

definition setInterstitialShowingData :: "'c adManager \<Rightarrow> int option \<Rightarrow> 'c adManager" where
  "setInterstitialShowingData m now =
     m\<lparr>events := events m @ [SetTimeoutWrite (interstitialTimeoutMultiplier m * 100) now],
       interstitialTimeoutMultiplier := interstitialTimeoutMultiplier m + 1\<rparr>"

definition writeInterstitialShowingData :: "env \<Rightarrow> int option \<Rightarrow> env" where
  "writeInterstitialShowingData e now =
     (let item = localInterstitial e;
          itemParsed = getParsed item;
          attempt' = (if itemTruthy item
                      then (case attempt itemParsed of None \<Rightarrow> 0 | Some n \<Rightarrow> n) + 1
                      else 1);
          showTime' = (if itemTruthy item then showTime itemParsed else NoShowTime)
      in e\<lparr>localInterstitial :=
             Some (Json (case now of
                           Some t \<Rightarrow> \<lparr>attempt = Some attempt', showTime = ShowTimeString (Some t)\<rparr>
                         | None \<Rightarrow> \<lparr>attempt = Some attempt', showTime = showTime'\<rparr>))\<rparr>)"

text \<open>
  \<^verbatim>\<open>shouldDisplayInterstitialSmall(id)\<close>, lines 874-899. It writes the session
  storage and may start a timer, so it returns the world and the manager with its
  verdict.
\<close>

definition shouldDisplayInterstitialSmall ::
    "env \<Rightarrow> 'c adManager \<Rightarrow> string \<Rightarrow> bool \<times> env \<times> 'c adManager" where
  "shouldDisplayInterstitialSmall e m ident =
     (if str_includes ident adTypes_interstitialSmall then
        if userIsPaying m then
          (let item = sessionInterstitial e in
           (\<not> stringTruthy item, e\<lparr>sessionInterstitial := Some ''true''\<rparr>, m))
        else
          (let item = localInterstitial e in
           if \<not> itemTruthy item \<or> \<not> isReferrerOfHaaretz e then (True, e, m)
           else if itemTruthy item \<and>
                   (case attempt (getParsed item) of
                      None \<Rightarrow> True
                    | Some n \<Rightarrow> n = 0 \<or> n < 2)
                then (True, e, m)
           else (False, e, setInterstitialShowingData m None))
      else (False, e, m))"

text \<open>
  \<^verbatim>\<open>shouldDisplayInterstitialFull(id, now)\<close>, lines 932-959. The function ends
  without a \<^verbatim>\<open>return\<close> when the record has no \<^verbatim>\<open>showTime\<close> string: the result is
  \<^verbatim>\<open>undefined\<close>. A missing \<^verbatim>\<open>attempt\<close> compares as NaN, so \<^verbatim>\<open>attempt < 3\<close> is false.
\<close>

definition shouldDisplayInterstitialFull ::
    "env \<Rightarrow> 'c adManager \<Rightarrow> string \<Rightarrow> int \<Rightarrow> jsval" where
  "shouldDisplayInterstitialFull e m ident now =
     (let item = localInterstitial e in
      if \<not> str_includes ident adTypes_interstitialFull \<or>
         \<not> isReferrerOfHaaretz e \<or>
         userIsPaying m \<or>
         \<not> itemTruthy item \<or>
         isReadyToRenderExternals m = False
      then JBool False
      else
        (let itemParsed = getParsed item in
         case showTime itemParsed of
           ShowTimeString shown_at \<Rightarrow>
             if (case attempt itemParsed of None \<Rightarrow> False | Some n \<Rightarrow> n < 3)
             then JBool False
             else JBool (inInterstitialWindow (hoursSince now shown_at))
         | NoShowTime \<Rightarrow> JUndefined))"

text \<open>
  \<^verbatim>\<open>interstitialShouldDisplay(adSlot)\<close>, lines 968-994, the entry to the two policies
  for callers outside the classes. \<open>locationPathname\<close> is the path of
  \<^verbatim>\<open>document.location.href\<close>.
\<close>

definition interstitialShouldDisplay ::
    "env \<Rightarrow> 'c adManager \<Rightarrow> adSlot \<Rightarrow> jsval \<times> env \<times> 'c adManager" where
  "interstitialShouldDisplay e m s =
     (let ident = id_slot s in
      if \<not> str_includes ident ''interstitial'' then (JBool True, e, m)
      else
        (let isHomepage = (locationPathname e = ''/'') in
         if isHomepage \<and> userIsPaying m then (JBool False, e, m)
         else
           (let now = clock e in
            if str_includes ident adTypes_interstitialSmall then
              (case shouldDisplayInterstitialSmall e m ident of
                 (b, e', m') \<Rightarrow> (JBool b, e', m'))
            else if str_includes ident adTypes_interstitialFull then
              (shouldDisplayInterstitialFull e m ident now, e, m)
            else (JBool False, e, m))))"

text \<open>
  \<^verbatim>\<open>isGoogleInterstitial\<close>, lines 1002-1004, throws a TypeError on an undefined type;
  \<^verbatim>\<open>googleInterstitialShouldDisplay\<close>, lines 1057-1085, reads the clock
  and the durable record.
\<close>

definition isGoogleInterstitial :: "adSlot \<Rightarrow> error + bool" where
  "isGoogleInterstitial s =
     (case type_slot s of
        None \<Rightarrow> Inl TypeError
      | Some t \<Rightarrow> Inr (str_includes t adTypes_interstitial))"

definition googleInterstitialShouldDisplay :: "env \<Rightarrow> adSlot \<Rightarrow> error + bool" where
  "googleInterstitialShouldDisplay e s =
     (case isGoogleInterstitial s of
        Inl err \<Rightarrow> Inl err
      | Inr False \<Rightarrow> Inr True
      | Inr True \<Rightarrow>
          (let now = clock e;
               item = localInterstitial e in
           if itemTruthy item then
             (case showTime (getParsed item) of
                ShowTimeString shown_at \<Rightarrow>
                  if inInterstitialWindow (hoursSince now shown_at) then Inr False
                  else Inr True
              | NoShowTime \<Rightarrow> Inr True)
           else Inr True))"

section \<open>AdManager: the admission gate\<close>

text \<open>The module constants \<^verbatim>\<open>isTM\<close>, \<^verbatim>\<open>isHDC\<close> and \<^verbatim>\<open>isHTZ\<close>, lines 459-463.\<close>

definition isTM :: "env \<Rightarrow> bool" where
  "isTM e = (siteNumber e = 10 \<or> siteNumber e = 20)"

definition isHDC :: "env \<Rightarrow> bool" where
  "isHDC e = (siteNumber e = 85)"

definition isHTZ :: "env \<Rightarrow> bool" where
  "isHTZ e = (\<not> isTM e \<and> \<not> isHDC e)"

text \<open>\<^verbatim>\<open>shouldDisplayAdAfterAdBlockRemoval\<close>, lines 1139-1144.\<close>

definition shouldDisplayAdAfterAdBlockRemoval :: "'c adManager \<Rightarrow> adSlot \<Rightarrow> bool" where
  "shouldDisplayAdAfterAdBlockRemoval m s =
     (\<not> (adBlockRemoved m = True \<and>
         (type_slot s = Some adTypes_maavaron \<or> type_slot s = Some adTypes_popunder)))"

text \<open>
  \<^verbatim>\<open>shouldDisplayAdMaavaronAfterPayWallBanner\<close>, lines 1148-1165. The value is that of
  a chain of \<^verbatim>\<open>||\<close>: the first truthy operand, else the last one, which is the stored
  \<^verbatim>\<open>nextslotLocation\<close> itself when that is falsy (\<^verbatim>\<open>undefined\<close>, \<^verbatim>\<open>null\<close> or the
  empty string). Text that \<^verbatim>\<open>JSON.parse\<close> rejects throws inside the function's own
  \<^verbatim>\<open>try\<close> and leaves the initial \<^verbatim>\<open>true\<close>.
\<close>

definition orElse :: "jsval \<Rightarrow> jsval \<Rightarrow> jsval" where
  "orElse a b = (if truthy a then a else b)"

definition shouldDisplayAdMaavaronAfterPayWallBanner ::
    "env \<Rightarrow> 'c adManager \<Rightarrow> adSlot \<Rightarrow> jsval" where
  "shouldDisplayAdMaavaronAfterPayWallBanner e m s =
     (if configSite m = ''haaretz'' \<and> type_slot s = Some adTypes_maavaron then
        (case localCobj e of
           CobjMalformed \<Rightarrow> JBool True
         | CobjAbsent \<Rightarrow> JBool True
         | CobjParsed paywall \<Rightarrow>
             orElse (JBool False)
               (orElse
                 (case mc paywall of
                    Missing \<Rightarrow> JUndefined
                  | JsonNull \<Rightarrow> JNull
                  | Present n \<Rightarrow> if n = 0 then JNum 0 else JBool (n \<ge> 12))
                 (case nextslotLocation paywall of
                    Missing \<Rightarrow> JUndefined
                  | JsonNull \<Rightarrow> JNull
                  | Present l \<Rightarrow> if l = [] then JStr [] else JBool (\<not> str_includes l ''pop''))))
      else JBool True)"

text \<open>\<^verbatim>\<open>shouldDisplayAdInWebView\<close>, lines 1168-1182.\<close>

definition shouldDisplayAdInWebView :: "env \<Rightarrow> 'c adManager \<Rightarrow> adSlot \<Rightarrow> bool" where
  "shouldDisplayAdInWebView e m s =
     (let adExceptions =
            [''interstitial''] @
            (if isWebView m then
               (if isHTZ e then [''inread'', ''textlink''] else [''inread.2'', ''inread.3''])
             else [])
      in \<not> isWebView m \<or> list_all (\<lambda>ad. \<not> str_includes (id_slot s) ad) adExceptions)"

text \<open>\<^verbatim>\<open>haveValidCookieForSmartphoneapp\<close>, lines 1190-1192.\<close>

definition haveValidCookieForSmartphoneapp :: "'c adManager \<Rightarrow> bool" where
  "haveValidCookieForSmartphoneapp m = isValidForsmartPhone m"

text \<open>
  \<^verbatim>\<open>doesUserTypeMatchBannerTargeting\<close>, lines 1199-1234, called with an AdSlot.
\<close>

definition doesUserTypeMatchBannerTargeting :: "env \<Rightarrow> 'c adManager \<Rightarrow> adSlot \<Rightarrow> bool" where
  "doesUserTypeMatchBannerTargeting e m s =
     (if ssoUserName e = ''pilosmadar@gmail.com'' then True
      else
        (let userType = userType m;
             adTarget = target s in
         if adTarget = adTargets_all then True
         else if adTarget = adTargets_nonPaying then
           (userType = UserTypes_anonymous e \<or> userType = UserTypes_registered e)
         else if adTarget = adTargets_anonymous then userType = UserTypes_anonymous e
         else if adTarget = adTargets_registered then userType = UserTypes_registered e
         else if adTarget = adTargets_paying then userType = UserTypes_paying e
         else if adTarget = adTargets_digitalOnly then userType = UserTypes_paying e
         else if adTarget = adTargets_digitalAndPrint then userType = UserTypes_paying e
         else False))"

text \<open>
  \<^verbatim>\<open>doesBreakpointContainAd(adSlot, breakpoint)\<close>, lines 1269-1291. Reading a key of
  an undefined mapping throws a TypeError; a value that is not an array (a missing key
  gives \<^verbatim>\<open>undefined\<close>) throws the function's own Error, whose message is
  \<open>invalidBreakpoint\<close> (the breakpoint is a number).
\<close>

definition invalidBreakpoint :: "adSlot \<Rightarrow> int \<Rightarrow> string" where
  "invalidBreakpoint s breakpoint =
     ''Invalid argument '' @ id_slot s @ '': breakpoint:'' @ showInt breakpoint @
     '' doesn'' @ [CHR 0x27] @ ''t exist!''"

definition doesBreakpointContainAd :: "env \<Rightarrow> adSlot \<Rightarrow> int \<Rightarrow> error + bool" where
  "doesBreakpointContainAd e s breakpoint =
     (if responsive s = True then
        (case responsiveAdSizeMapping s of
           None \<Rightarrow> Inl TypeError
         | Some sizes \<Rightarrow>
             (case map_of sizes (getBreakpointName e breakpoint) of
                Some (SizeArray mapping) \<Rightarrow>
                  Inr (length mapping > 0 \<and> \<not> (mapping = [Dims [0, 0]]))
              | Some NotAnArray \<Rightarrow> Inl (Error (invalidBreakpoint s breakpoint))
              | None \<Rightarrow> Inl (Error (invalidBreakpoint s breakpoint))))
      else Inr True)"

text \<open>
  \<^verbatim>\<open>shouldSendRequestToDfp(adSlot)\<close>, lines 1093-1137, in three parts: the late
  initialisation before the \<^verbatim>\<open>try\<close> (it fills in the slot's element and target and
  registers the slot), the chain inside the \<^verbatim>\<open>try\<close>, and the \<^verbatim>\<open>catch\<close> that turns an
  exception into \<^verbatim>\<open>null\<close>. \<open>None\<close> is an undefined argument.
\<close>

definition lateInit :: "env \<Rightarrow> 'c adManager \<Rightarrow> nat \<Rightarrow> 'c adManager" where
  "lateInit e m a =
     (let s = heap m a in
      case htmlElement s of
        Some el \<Rightarrow> m
      | None \<Rightarrow>
          (case getElementById e (id_slot s) of
             None \<Rightarrow> m
           | Some el \<Rightarrow>
               (let s' = s\<lparr>htmlElement := Some el,
                           target := (case data_audtarget el of
                                        Some v \<Rightarrow> v
                                      | None \<Rightarrow> adTargets_all)\<rparr>
                in m\<lparr>heap := (heap m)(a := s'),
                     adSlots := AList.update (id_slot s') a (adSlots m)\<rparr>)))"

definition admission ::
    "'c resolverCode \<Rightarrow> env \<Rightarrow> 'c adManager \<Rightarrow> nat option \<Rightarrow> error + jsval" where
  "admission ops e m adSlot =
     (case adSlot of
        None \<Rightarrow> Inr (JBool False)
      | Some a \<Rightarrow>
          (let s = heap m a in
           allOf
             [ofBool (isReadyToRenderExternals m),
              Inr (case htmlElement s of
                     Some el \<Rightarrow> JObject
                   | None \<Rightarrow>
                       JBool (\<not> isWebView m \<and> type_slot s = Some adTypes_interstitial)),
              ofResult (googleInterstitialShouldDisplay e s),
              ofResult (case isBlocked ops (conflictResolver m) (id_slot s) of
                          Inl err \<Rightarrow> Inl err
                        | Inr b \<Rightarrow> Inr (b = False)),
              ofBool (isWhitelisted e s),
              ofBool (isBlacklisted e s = False),
              ofBool (shouldDisplayAdInWebView e m s),
              ofBool (shouldDisplayAdAfterAdBlockRemoval m s),
              Inr (shouldDisplayAdMaavaronAfterPayWallBanner e m s),
              ofResult (doesBreakpointContainAd e s (currentBreakpoint e)),
              ofBool (haveValidCookieForSmartphoneapp m),
              ofBool (doesUserTypeMatchBannerTargeting e m s)]))"

definition shouldSendRequestToDfp ::
    "'c resolverCode \<Rightarrow> env \<Rightarrow> 'c adManager \<Rightarrow> nat option \<Rightarrow> jsval \<times> 'c adManager" where
  "shouldSendRequestToDfp ops e m adSlot =
     (let m1 = (case adSlot of None \<Rightarrow> m | Some a \<Rightarrow> lateInit e m a) in
      (case admission ops e m1 adSlot of
         Inl err \<Rightarrow> JNull
       | Inr v \<Rightarrow> v,
       m1))"

section \<open>AdSlot: defining, showing and hiding a slot\<close>

text \<open>
  \<^verbatim>\<open>defineMaavaron\<close>, lines 420-435. \<^verbatim>\<open>document.referrer.match('loc.haaretz')\<close> reads
  its argument as a regular expression: the dot is any character but a line terminator.
\<close>

fun matchLocHaaretz :: "string \<Rightarrow> bool" where
  "matchLocHaaretz [] = False"
| "matchLocHaaretz (c # cs) =
     ((startsWith (c # cs) ''loc'' \<and>
       (case drop 3 (c # cs) of
          [] \<Rightarrow> False
        | d # ds \<Rightarrow> d \<noteq> CHR 0x0A \<and> d \<noteq> CHR 0x0D \<and> startsWith ds ''haaretz'')) \<or>
      matchLocHaaretz cs)"

definition defineMaavaron :: "env \<Rightarrow> 'c adManager \<Rightarrow> nat \<Rightarrow> handle \<times> 'c adManager" where
  "defineMaavaron e m a =
     (if \<not> matchLocHaaretz (documentReferrer e) then
        (PassbackSlot (id_slot (heap m a)),
         m\<lparr>events := events m @ [DefinePassback (id_slot (heap m a))]\<rparr>)
      else (NullSlot, m))"

text \<open>
  The loop of \<^verbatim>\<open>defineSlot\<close> over the keys of \<^verbatim>\<open>responsiveAdSizeMapping\<close>, lines
  344-360: each value is replaced by its image under \<^verbatim>\<open>map\<close> (a value that is not an
  array has no \<^verbatim>\<open>map\<close>: TypeError, with the earlier keys already rewritten) and handed to
  \<^verbatim>\<open>addSize\<close>, the zero-size list as the empty list.
\<close>

fun mapSizes ::
    "(string \<times> size_entry) list \<Rightarrow> (string \<times> size_entry) list \<times> event list \<times> error option" where
  "mapSizes [] = ([], [], None)"
| "mapSizes ((key, NotAnArray) # rest) = ((key, NotAnArray) # rest, [], Some TypeError)"
| "mapSizes ((key, SizeArray items) # rest) =
     (let items' = map (\<lambda>item. if item = FluidList then FluidName else item) items;
          (rest', evs, err) = mapSizes rest
      in ((key, SizeArray items') # rest',
          AddSize key (if \<not> (items' = [Dims [0, 0]]) then items' else []) # evs,
          err))"

text \<open>
  The second half of \<^verbatim>\<open>defineSlot\<close>, lines 319-369, reached once the gate has admitted
  the slot. The ad-unit path and the size argument handed to the backend are not part of
  the model; the backend's answer is \<open>gptReturnsSlot\<close>.
\<close>

definition defineGptSlot :: "env \<Rightarrow> 'c adManager \<Rightarrow> nat \<Rightarrow> (error + handle) \<times> 'c adManager" where
  "defineGptSlot e m a =
     (let s = heap m a in
      case isOutOfPage e s of
        Inl err \<Rightarrow> (Inl err, m)
      | Inr outOfPage \<Rightarrow>
          (let m1 = m\<lparr>events := events m @ [GptDefine outOfPage (id_slot s)]\<rparr> in
           if gptReturnsSlot e (id_slot s) then
             (if responsive s then
                (case responsiveAdSizeMapping s of
                   None \<Rightarrow> (Inl TypeError, m1)
                 | Some sizes \<Rightarrow>
                     (let (sizes', evs, err) = mapSizes sizes;
                          m2 = m1\<lparr>heap := (heap m1)(a := s\<lparr>responsiveAdSizeMapping := Some sizes'\<rparr>),
                                  events := events m1 @ evs\<rparr>
                      in case err of
                           Some x \<Rightarrow> (Inl x, m2)
                         | None \<Rightarrow> (Inr (GptSlot (id_slot s)), m2)))
              else (Inr (GptSlot (id_slot s)), m1))
           else (Inr NullSlot, m1)))"

text \<open>
  \<^verbatim>\<open>defineSlot\<close>, lines 303-370. In the passback branch \<^verbatim>\<open>maavaronSlot.display()\<close> on
  the \<^verbatim>\<open>null\<close> that \<^verbatim>\<open>defineMaavaron\<close> can return throws a TypeError.
\<close>

definition defineSlot ::
    "'c resolverCode \<Rightarrow> env \<Rightarrow> 'c adManager \<Rightarrow> nat \<Rightarrow> (error + handle) \<times> 'c adManager" where
  "defineSlot ops e m a =
     (case isMaavaron e (heap m a) of
        Inl err \<Rightarrow> (Inl err, m)
      | Inr True \<Rightarrow>
          (let (maavaronSlot, m1) = defineMaavaron e m a;
               (r, m2) = shouldSendRequestToDfp ops e m1 (Some a)
           in if truthy r then
                (if \<not> shown (heap m2 a) then
                   (let m3 = m2\<lparr>heap := (heap m2)(a := (heap m2 a)\<lparr>shown := True\<rparr>)\<rparr> in
                    if maavaronSlot = NullSlot then (Inl TypeError, m3)
                    else (Inr maavaronSlot,
                          m3\<lparr>events := events m3 @ [PassbackDisplay (id_slot (heap m3 a))]\<rparr>))
                 else (Inr maavaronSlot, m2))
              else (Inr maavaronSlot, m2))
      | Inr False \<Rightarrow>
          (let (r, m1) = shouldSendRequestToDfp ops e m (Some a)
           in if \<not> truthy r then (Inr ThisAdSlot, m1)
              else defineGptSlot e m1 a))"

text \<open>
  \<^verbatim>\<open>show()\<close>, lines 215-285, up to the command it queues, and \<^verbatim>\<open>hide()\<close>, lines
  291-297. \<^verbatim>\<open>isInterstitial()\<close> is called only for a slot that is not shown and has no
  element.
\<close>

definition show_slot :: "env \<Rightarrow> 'c adManager \<Rightarrow> nat \<Rightarrow> error option \<times> 'c adManager" where
  "show_slot e m a =
     (let s0 = heap m a;
          s = (case htmlElement s0 of
                 Some el \<Rightarrow> s0
               | None \<Rightarrow>
                   (case getElementById e (id_slot s0) of
                      None \<Rightarrow> s0
                    | Some el \<Rightarrow>
                        s0\<lparr>htmlElement := Some el,
                           target := (case data_audtarget el of
                                        Some v \<Rightarrow> v
                                      | None \<Rightarrow> adTargets_all)\<rparr>));
          m1 = m\<lparr>heap := (heap m)(a := s)\<rparr>
      in if shown s then (None, m1)
         else
           (case (case htmlElement s of Some el \<Rightarrow> Inr True | None \<Rightarrow> isInterstitial e s) of
              Inl err \<Rightarrow> (Some err, m1)
            | Inr False \<Rightarrow> (None, m1)
            | Inr True \<Rightarrow>
                (let targeting =
                       (if isTM e \<and> isWebView_slot s \<and> str_includes (id_slot s) ''.inread'' then
                          (case cookieUser e of
                             None \<Rightarrow> []
                           | Some u \<Rightarrow>
                               if u \<noteq> [] \<and> googletagApiReady e then [SetTargetingUser u] else [])
                        else [])
                 in (None,
                     m1\<lparr>heap := (heap m1)(a := s\<lparr>shown := True\<rparr>),
                        events := events m1 @ targeting @ [CmdShow a]\<rparr>))))"

definition hide_slot :: "'c adManager \<Rightarrow> nat \<Rightarrow> 'c adManager" where
  "hide_slot m a = m\<lparr>events := events m @ [CmdHide a]\<rparr>"

section \<open>AdManager: releasing the slots that wait for another slot\<close>

text \<open>
  \<^verbatim>\<open>releaseSlotDependencies(adSlot)\<close>, lines 1354-1390. The whole body stands in one
  \<^verbatim>\<open>try\<close>; whatever throws inside ends the call, with the updates made so far kept.
  \<open>hideBlocked\<close> is the first loop, \<open>showNonBlocked\<close> the second and \<open>drainMember\<close> its
  body. Deleting the key under the iterator from a \<^verbatim>\<open>Set\<close> does not disturb the
  iteration, so the second loop runs over the keys the set holds when the loop starts.
\<close>

fun hideBlocked ::
    "'c resolverCode \<Rightarrow> 'c adManager \<Rightarrow> string list \<Rightarrow> error option \<times> 'c adManager" where
  "hideBlocked ops m [] = (None, m)"
| "hideBlocked ops m (blockedSlot # rest) =
     (case isBlocked ops (conflictResolver m) blockedSlot of
        Inl err \<Rightarrow> (Some err, m)
      | Inr True \<Rightarrow>
          (case map_of (adSlots m) blockedSlot of
             Some a \<Rightarrow> hideBlocked ops (hide_slot m a) rest
           | None \<Rightarrow> hideBlocked ops m rest)
      | Inr False \<Rightarrow> hideBlocked ops m rest)"

definition deleteDeferred :: "string \<Rightarrow> 'c adManager \<Rightarrow> 'c adManager" where
  "deleteDeferred k m =
     m\<lparr>conflictResolver :=
         (conflictResolver m)\<lparr>deferredSlots := removeAll k (deferredSlots (conflictResolver m))\<rparr>\<rparr>"

definition drainMember ::
    "'c resolverCode \<Rightarrow> env \<Rightarrow> 'c adManager \<Rightarrow> string \<Rightarrow> error option \<times> 'c adManager" where
  "drainMember ops e m deferredSlotKey =
     (case map_of (adSlots m) deferredSlotKey of
        None \<Rightarrow> (None, m)
      | Some a \<Rightarrow>
          (let (r, m1) = shouldSendRequestToDfp ops e m (Some a) in
           if \<not> truthy r then (None, m1)
           else
             (let m2 = deleteDeferred deferredSlotKey m1 in
              if deferredSlot (heap m2 a) then
                (case defineSlot ops e m2 a of
                   (Inl err, m3) \<Rightarrow> (Some err, m3)
                 | (Inr h, m3) \<Rightarrow>
                     show_slot e (m3\<lparr>heap := (heap m3)(a := (heap m3 a)\<lparr>deferredSlot := False\<rparr>)\<rparr>) a)
              else show_slot e m2 a)))"

fun showNonBlocked ::
    "'c resolverCode \<Rightarrow> env \<Rightarrow> 'c adManager \<Rightarrow> string list \<Rightarrow> error option \<times> 'c adManager" where
  "showNonBlocked ops e m [] = (None, m)"
| "showNonBlocked ops e m (deferredSlotKey # rest) =
     (case drainMember ops e m deferredSlotKey of
        (Some err, m') \<Rightarrow> (Some err, m')
      | (None, m') \<Rightarrow> showNonBlocked ops e m' rest)"

definition releaseSlotDependencies ::
    "'c resolverCode \<Rightarrow> env \<Rightarrow> 'c adManager \<Rightarrow> nat \<Rightarrow> 'c adManager" where
  "releaseSlotDependencies ops e m a =
     (let ident = id_slot (heap m a) in
      case updateResolvedSlot ops (conflictResolver m) ident (lastResolvedSize (heap m a)) of
        Inl err \<Rightarrow> m
      | Inr resolver \<Rightarrow>
          (let m1 = m\<lparr>conflictResolver := resolver\<rparr> in
           case isBlocking ops resolver ident of
             Inl err \<Rightarrow> m1
           | Inr False \<Rightarrow> m1
           | Inr True \<Rightarrow>
               (case getBlockedSlotsIds ops resolver ident of
                  Inl err \<Rightarrow> m1
                | Inr blocked \<Rightarrow>
                    (case hideBlocked ops m1 blocked of
                       (Some err, m2) \<Rightarrow> m2
                     | (None, m2) \<Rightarrow>
                         snd (showNonBlocked ops e m2 (deferredSlots (conflictResolver m2)))))))"

text \<open>
  The test of the second loop, line 1372, for a key of the deferred set: the key is
  registered and the gate admits its slot.
\<close>

definition gateAdmits :: "'c resolverCode \<Rightarrow> env \<Rightarrow> 'c adManager \<Rightarrow> string \<Rightarrow> bool" where
  "gateAdmits ops e m k =
     (case map_of (adSlots m) k of
        None \<Rightarrow> False
      | Some a \<Rightarrow> truthy (fst (shouldSendRequestToDfp ops e m (Some a))))"

text \<open>
  The registry as \<^verbatim>\<open>initAdSlots\<close> and the gate fill it (lines 801 and 1102): a slot is
  stored under its own id.
\<close>

definition registryKeysAreIds :: "'c adManager \<Rightarrow> string list \<Rightarrow> bool" where
  "registryKeysAreIds m ks =
     list_all (\<lambda>k. case map_of (adSlots m) k of
                     None \<Rightarrow> True
                   | Some a \<Rightarrow> id_slot (heap m a) = k) ks"

text \<open>
  What one pass of the loop body for the slot at an address leaves alone: the flags of the
  manager, the resolver's own state, every other slot, the slot's id, and the registry
  when the slot is stored under its id.
\<close>

definition flags :: "'c adManager \<Rightarrow> bool \<times> bool \<times> string \<times> string \<times> bool \<times> bool" where
  "flags m =
     (isReadyToRenderExternals m, isWebView m, userType m, configSite m, adBlockRemoved m,
      isValidForsmartPhone m)"

definition touchesOnly :: "nat \<Rightarrow> 'c adManager \<Rightarrow> 'c adManager \<Rightarrow> bool" where
  "touchesOnly a m m' =
     (flags m' = flags m \<and>
      internals (conflictResolver m') = internals (conflictResolver m) \<and>
      (\<forall>b. b \<noteq> a \<longrightarrow> heap m' b = heap m b) \<and>
      id_slot (heap m' a) = id_slot (heap m a) \<and>
      (map_of (adSlots m) (id_slot (heap m a)) = Some a \<longrightarrow>
         map_of (adSlots m') = map_of (adSlots m)))"

text \<open>
  The render callback of \<^verbatim>\<open>initSlotRenderedCallback\<close>, lines 1332-1343, for a slot
  found in the registry: it records the size and the breakpoint on the slot, hides an
  empty slot and releases its dependants. The events it dispatches to the page before
  that are not part of the model.
\<close>

definition slotRenderEnded ::
    "'c resolverCode \<Rightarrow> env \<Rightarrow> 'c adManager \<Rightarrow> string \<Rightarrow> bool \<Rightarrow> int list \<Rightarrow> 'c adManager" where
  "slotRenderEnded ops e m ident isEmpty resolved =
     (case map_of (adSlots m) ident of
        None \<Rightarrow> m
      | Some a \<Rightarrow>
          (let s = (heap m a)\<lparr>lastResolvedSize := ResolvedSize resolved,
                                lastResolvedWithBreakpoint := Some (currentBreakpoint e)\<rparr>
           in if isEmpty then
                (let m1 = m\<lparr>heap := (heap m)(a := s\<lparr>lastResolvedSize := EMPTY_SIZE\<rparr>)\<rparr>
                 in releaseSlotDependencies ops e (hide_slot m1 a) a)
              else releaseSlotDependencies ops e (m\<lparr>heap := (heap m)(a := s)\<rparr>) a))"

text \<open>
  The two sorts of the scheduler: \<^verbatim>\<open>Object.keys(adSlotConfig).sort(this.sortSlots)\<close> in
  \<^verbatim>\<open>initAdSlots\<close> (line 762) and \<^verbatim>\<open>sortAdSlots\<close> (lines 743-747) on the entries of the
  registry.
\<close>

definition sortSlotIds :: "string list \<Rightarrow> error + string list" where
  "sortSlotIds ids = sortWith sortSlots ids"

definition sortAdSlots :: "(string \<times> nat) list \<Rightarrow> error + (string \<times> nat) list" where
  "sortAdSlots entries = sortWith (\<lambda>a b. sortSlots (fst a) (fst b)) entries"

section \<open>The wording of the specification, and concrete inputs\<close>

text \<open>
  The window of the full-interstitial policy as the specification words it: the elapsed
  time lies strictly between about 10.8 seconds and about 63 minutes. In milliseconds.
\<close>

definition spec_fullInterstitialWindow :: "int \<Rightarrow> bool" where
  "spec_fullInterstitialWindow elapsed = (10800 < elapsed \<and> elapsed < 3780000)"

text \<open>
  The denial of the small-interstitial policy for a user who does not pay, as the
  specification words it: the referrer is direct or non-affiliate (the specification calls
  the referrer the full-interstitial policy requires, that of \<open>isReferrerOfHaaretz\<close>,
  affiliate) and a durable record exists with an attempt count of 2 or more.
\<close>

definition spec_smallInterstitialDenied :: "env \<Rightarrow> bool" where
  "spec_smallInterstitialDenied e =
     (\<not> isReferrerOfHaaretz e \<and>
      (case localInterstitial e of
         Some (Json r) \<Rightarrow> (case attempt r of Some n \<Rightarrow> n \<ge> 2 | None \<Rightarrow> False)
       | _ \<Rightarrow> False))"

text \<open>The events that only the passback branch of \<open>defineSlot\<close> produces.\<close>

fun isPassbackEvent :: "event \<Rightarrow> bool" where
  "isPassbackEvent (DefinePassback p) = True"
| "isPassbackEvent (PassbackDisplay p) = True"
| "isPassbackEvent ev = False"

text \<open>
  A page for the examples: a desktop browser that came from a search engine, no stored
  records, two breakpoints (0 is \<^verbatim>\<open>tierA\<close>, every other width \<^verbatim>\<open>tierB\<close>), and two
  elements in the document.
\<close>

definition exampleEnv :: env where
  "exampleEnv =
     \<lparr>getElementById =
        (\<lambda>i. if i = ''b.box'' \<or> i = ''c.box''
             then Some \<lparr>data_audtarget = None\<rparr> else None),
      documentReferrer = ''https://www.google.com/'',
      configReferrer = ''https://www.google.com/'',
      userAgent = ''Mozilla (X11; Linux)'',
      locationPathname = ''/news/article-1'',
      clock = 5000000,
      localInterstitial = None,
      sessionInterstitial = None,
      localCobj = CobjAbsent,
      ssoUserName = [],
      cookieUser = None,
      googletagApiReady = True,
      siteNumber = 80,
      currentBreakpoint = 0,
      getBreakpointName = (\<lambda>b. if b = 0 then ''tierA'' else ''tierB''),
      UserTypes_anonymous = ''anonymous'',
      UserTypes_registered = ''registered'',
      UserTypes_paying = ''paying'',
      gptReturnsSlot = (\<lambda>i. True)\<rparr>"

text \<open>The same page reached from the site itself.\<close>

definition haaretzEnv :: env where
  "haaretzEnv = exampleEnv\<lparr>documentReferrer := ''https://www.haaretz.co.il/''\<rparr>"

text \<open>A slot with an element of its own, for every user, open to every referrer.\<close>

definition exampleSlot :: adSlot where
  "exampleSlot =
     \<lparr>id_slot = ''a.box'',
      type_slot = Some ''regular'',
      target = ''all'',
      responsive = False,
      fluid = False,
      htmlElement = Some \<lparr>data_audtarget = None\<rparr>,
      deferredSlot = False,
      isWebView_slot = False,
      responsiveAdSizeMapping = None,
      blacklistReferrers = [],
      whitelistReferrers = [],
      shown = False,
      lastResolvedSize = NotResolved,
      lastResolvedWithBreakpoint = None,
      slot = None\<rparr>"

text \<open>The responsive slot of the specification's example.\<close>

definition tierSlot :: adSlot where
  "tierSlot =
     exampleSlot\<lparr>responsive := True,
                 responsiveAdSizeMapping :=
                   Some [(''tierA'', SizeArray [Dims [0, 0]]),
                         (''tierB'', SizeArray [Dims [300, 250]])]\<rparr>"

text \<open>
  A resolver for the examples, in the state after a blocking slot came back empty: the
  slot that rendered has dependants, and none of them is blocked any more. A second one
  whose \<open>isBlocked\<close> throws.
\<close>

definition releasedResolver :: "unit resolverCode" where
  "releasedResolver =
     \<lparr>isBlocked = (\<lambda>r k. Inr False),
      isBlocking = (\<lambda>r k. Inr True),
      getBlockedSlotsIds = (\<lambda>r k. Inr []),
      updateResolvedSlot = (\<lambda>r k size. Inr r)\<rparr>"

definition throwingResolver :: "unit resolverCode" where
  "throwingResolver = releasedResolver\<lparr>isBlocked := (\<lambda>r k. Inl TypeError)\<rparr>"

text \<open>
  A manager that is ready to render, for an anonymous user, with three slots: \<^verbatim>\<open>a.box\<close>
  at address 100, which has just rendered, and its two dependants \<^verbatim>\<open>b.box\<close> and
  \<^verbatim>\<open>c.box\<close> at addresses 101 and 102, both deferred.
\<close>

definition exampleManager :: "unit adManager" where
  "exampleManager =
     \<lparr>isReadyToRenderExternals = True,
      isWebView = False,
      userType = ''anonymous'',
      configSite = ''haaretz'',
      adBlockRemoved = False,
      isValidForsmartPhone = True,
      conflictResolver = \<lparr>deferredSlots = [''b.box'', ''c.box''], internals = ()\<rparr>,
      adSlots = [(''a.box'', 100), (''b.box'', 101), (''c.box'', 102)],
      heap = (\<lambda>a. if a = 101 then exampleSlot\<lparr>id_slot := ''b.box'', deferredSlot := True\<rparr>
                   else if a = 102 then exampleSlot\<lparr>id_slot := ''c.box'', deferredSlot := True\<rparr>
                   else exampleSlot\<lparr>lastResolvedSize := EMPTY_SIZE\<rparr>),
      interstitialTimeoutMultiplier = 1,
      events = []\<rparr>"

text \<open>
  The same manager when \<^verbatim>\<open>b.box\<close> is closed to visitors from the search engine: it is
  not blocked, and the gate refuses it.
\<close>

definition blacklistManager :: "unit adManager" where
  "blacklistManager =
     exampleManager\<lparr>heap := (heap exampleManager)
       (101 := exampleSlot\<lparr>id_slot := ''b.box'', deferredSlot := True,
                         blacklistReferrers := [''google'']\<rparr>)\<rparr>"

text \<open>
  The same manager when \<^verbatim>\<open>b.box\<close> is responsive and its size mapping holds, under a
  breakpoint that is not the current one, a value that is not an array.
\<close>

definition misconfiguredManager :: "unit adManager" where
  "misconfiguredManager =
     exampleManager\<lparr>heap := (heap exampleManager)
       (101 := exampleSlot\<lparr>id_slot := ''b.box'', deferredSlot := True, responsive := True,
                         responsiveAdSizeMapping :=
                           Some [(''tierA'', SizeArray [Dims [300, 250]]),
                                 (''tierB'', NotAnArray)]\<rparr>)\<rparr>"

text \<open>
  A slot whose later predicates throw: its type is undefined and it is responsive without
  a size mapping.
\<close>

definition throwingSlot :: adSlot where
  "throwingSlot = exampleSlot\<lparr>type_slot := None, responsive := True\<rparr>"

definition throwingManager :: "unit adManager" where
  "throwingManager = exampleManager\<lparr>heap := (\<lambda>a. throwingSlot)\<rparr>"

text \<open>
  The same manager when \<^verbatim>\<open>b.box\<close> has not found its element yet: the document holds
  one, and the gate fills it in.
\<close>

definition lateManager :: "unit adManager" where
  "lateManager =
     exampleManager\<lparr>heap := (heap exampleManager)
       (101 := exampleSlot\<lparr>id_slot := ''b.box'', htmlElement := None\<rparr>)\<rparr>"

text \<open>
  The same manager when the type of \<^verbatim>\<open>b.box\<close> is undefined: a predicate of the gate
  throws on it.
\<close>

definition typelessManager :: "unit adManager" where
  "typelessManager =
     exampleManager\<lparr>heap := (heap exampleManager)
       (101 := exampleSlot\<lparr>id_slot := ''b.box'', deferredSlot := True, type_slot := None\<rparr>)\<rparr>"

text \<open>
  A page of the site \<^verbatim>\<open>haaretz\<close> whose stored paywall state is
  \<^verbatim>\<open>{"nextslotLocation": null}\<close>, and a manager whose slots are passback slots.
\<close>

definition paywallEnv :: env where
  "paywallEnv =
     exampleEnv\<lparr>localCobj := CobjParsed \<lparr>mc = Missing, nextslotLocation = JsonNull\<rparr>\<rparr>"

definition maavaronManager :: "unit adManager" where
  "maavaronManager =
     exampleManager\<lparr>heap := (\<lambda>a. exampleSlot\<lparr>id_slot := ''page.maavaron'',
                                                 type_slot := Some ''.maavaron''\<rparr>)\<rparr>"

text \<open>A durable record with the given attempt count, shown at the given time.\<close>

definition recordedEnv :: "env \<Rightarrow> int \<Rightarrow> int \<Rightarrow> env" where
  "recordedEnv e n t =
     e\<lparr>localInterstitial := Some (Json \<lparr>attempt = Some n, showTime = ShowTimeString (Some t)\<rparr>)\<rparr>"

section \<open>Properties of the comparator\<close>

lemma str_less_irrefl: "\<not> str_less a a"
  by (induction a) auto

lemma str_less_total: "a \<noteq> b \<Longrightarrow> str_less a b \<or> str_less b a"
proof (induction a b rule: str_less.induct)
  case (4 x xs y ys)
  show ?case
  proof (cases "(of_char x :: nat) = of_char y")
    case True
    then have "x = y" by simp
    with 4 show ?thesis by auto
  next
    case False
    then show ?thesis by auto
  qed
qed auto

lemma str_less_asym: "str_less a b \<Longrightarrow> \<not> str_less b a"
  by (induction a b rule: str_less.induct) (auto split: if_splits)


section \<open>C9: the ordering of slot ids\<close>

lemma one_char_no_key: "\<not> str_includes [c] ''billboard''"
  by (simp add: str_includes_def str_indexOf_def)

lemma sort_example:
  "sortSlotIds [''x.billboard.2'', ''a.billboard.1'', ''z.other'']
     = Inr [''a.billboard.1'', ''x.billboard.2'', ''z.other'']"
  by (simp add: sortSlotIds_def sortWith_def sortSlots_def str_includes_def str_indexOf_def)

text \<open>
  Claim C9. The comparator \<open>sortSlots\<close> places every id that contains the pinned keyword
  \<^verbatim>\<open>billboard\<close> before every id that lacks it: called with the two in either order it
  returns -1 when the first argument has the keyword and 1 when the second has it (an id
  is not empty; on the empty string as first argument this second call throws). Two ids
  that both contain the keyword are ordered by the position of its first occurrence and,
  at equal positions, by the order of the strings; the result is 0 only for equal ids.
  Sorting \<^verbatim>\<open>["x.billboard.2", "a.billboard.1", "z.other"]\<close> gives \<^verbatim>\<open>a.billboard.1\<close>,
  \<^verbatim>\<open>x.billboard.2\<close>, \<^verbatim>\<open>z.other\<close>. That an id is a non-empty string is the source's own rule: the
  constructor of \<^verbatim>\<open>AdSlot\<close> and \<^verbatim>\<open>getAdType\<close> throw on an empty one.
\<close>

theorem sortSlots_pinned_first:
  "(str_includes a ''billboard'' \<and> \<not> str_includes b ''billboard'' \<longrightarrow>
      sortSlots a b = Inr (- 1) \<and>
      sortSlots b a = (if b = [] then Inl TypeError else Inr 1)) \<and>
   (str_includes a ''billboard'' \<and> str_includes b ''billboard'' \<longrightarrow>
      (\<exists>r. sortSlots a b = Inr r \<and>
           (r < 0 \<longleftrightarrow>
              str_indexOf a ''billboard'' < str_indexOf b ''billboard'' \<or>
              (str_indexOf a ''billboard'' = str_indexOf b ''billboard'' \<and> str_less a b)) \<and>
           (r = 0 \<longleftrightarrow> a = b))) \<and>
   sortSlotIds [''x.billboard.2'', ''a.billboard.1'', ''z.other'']
     = Inr [''a.billboard.1'', ''x.billboard.2'', ''z.other'']"
proof (intro conjI impI)
  assume h: "str_includes a ''billboard'' \<and> \<not> str_includes b ''billboard''"
  then show "sortSlots a b = Inr (- 1)"
    by (simp add: sortSlots_def)
  show "sortSlots b a = (if b = [] then Inl TypeError else Inr 1)"
  proof (cases b)
    case Nil
    with h show ?thesis by (simp add: sortSlots_def)
  next
    case (Cons c cs)
    with h one_char_no_key [of c] show ?thesis by (simp add: sortSlots_def)
  qed
next
  assume h: "str_includes a ''billboard'' \<and> str_includes b ''billboard''"
  show "\<exists>r. sortSlots a b = Inr r \<and>
           (r < 0 \<longleftrightarrow>
              str_indexOf a ''billboard'' < str_indexOf b ''billboard'' \<or>
              (str_indexOf a ''billboard'' = str_indexOf b ''billboard'' \<and> str_less a b)) \<and>
           (r = 0 \<longleftrightarrow> a = b)"
    using h str_less_irrefl [of a] str_less_total [of a b] str_less_asym [of a b]
    by (auto simp add: sortSlots_def Let_def)
next
  show "sortSlotIds [''x.billboard.2'', ''a.billboard.1'', ''z.other'']
     = Inr [''a.billboard.1'', ''x.billboard.2'', ''z.other'']"
    by (rule sort_example)
qed

theorem sortSlots_pinned_first_witness:
  "str_includes ''a.billboard.1'' ''billboard'' \<and>
   \<not> str_includes ''z.other'' ''billboard'' \<and>
   sortSlots ''a.billboard.1'' ''z.other'' = Inr (- 1) \<and>
   sortSlots ''z.other'' ''a.billboard.1'' = Inr 1 \<and>
   str_includes ''x.billboard.2'' ''billboard'' \<and>
   (\<exists>r. sortSlots ''a.billboard.1'' ''x.billboard.2'' = Inr r \<and> r < 0)"
proof -
  have h1: "str_includes ''a.billboard.1'' ''billboard'' \<and>
            \<not> str_includes ''z.other'' ''billboard''"
    by (simp add: str_includes_def str_indexOf_def)
  have h2: "str_includes ''a.billboard.1'' ''billboard'' \<and>
            str_includes ''x.billboard.2'' ''billboard''"
    by (simp add: str_includes_def str_indexOf_def)
  have ix: "str_indexOf ''a.billboard.1'' ''billboard'' = str_indexOf ''x.billboard.2'' ''billboard''"
    by (simp add: str_indexOf_def)
  have lt: "str_less ''a.billboard.1'' ''x.billboard.2''"
    by simp
  note inst1 = sortSlots_pinned_first [of "''a.billboard.1''" "''z.other''"]
  note inst2 = sortSlots_pinned_first [of "''a.billboard.1''" "''x.billboard.2''"]
  have c1: "sortSlots ''a.billboard.1'' ''z.other'' = Inr (- 1) \<and>
            sortSlots ''z.other'' ''a.billboard.1'' = Inr 1"
    using inst1 h1 by simp
  have c2: "\<exists>r. sortSlots ''a.billboard.1'' ''x.billboard.2'' = Inr r \<and> r < 0"
    using inst2 h2 ix lt by blast
  from h1 h2 c1 c2 show ?thesis by blast
qed


lemma sortSlots_empty_first: "sortSlots [] b = Inl TypeError"
  by (simp add: sortSlots_def str_includes_def str_indexOf_def)

section \<open>C10: the passback branch of \<open>defineSlot\<close> is dead\<close>

lemma isMaavaron_cases:
  "isMaavaron e s =
     (case type_slot s of
        None \<Rightarrow> Inl (Error ''An adSlot cannot by typeless!'')
      | Some t \<Rightarrow> Inr False)"
  by (simp add: isMaavaron_def split: option.splits)

lemma events_lateInit: "events (lateInit e m a) = events m"
  by (simp add: lateInit_def Let_def split: option.splits)

lemma events_gate: "events (snd (shouldSendRequestToDfp ops e m adSlot)) = events m"
  by (simp add: shouldSendRequestToDfp_def Let_def events_lateInit split: option.splits)

lemma mapSizes_no_passback:
  "mapSizes sizes = (sizes', evs, err) \<Longrightarrow> filter isPassbackEvent evs = []"
proof (induction sizes arbitrary: sizes' evs err rule: mapSizes.induct)
  case 1
  then show ?case by simp
next
  case (2 key rest)
  then show ?case by simp
next
  case (3 key items rest)
  then show ?case
    by (auto simp add: Let_def split: prod.splits)
qed

lemma defineGptSlot_no_passback:
  "filter isPassbackEvent (events (snd (defineGptSlot e m a))) = filter isPassbackEvent (events m)"
  by (auto simp add: defineGptSlot_def Let_def dest: mapSizes_no_passback
      split: sum.splits option.splits prod.splits)

lemma defineGptSlot_handle: "fst (defineGptSlot e m a) \<noteq> Inr (PassbackSlot p)"
  by (auto simp add: defineGptSlot_def Let_def split: sum.splits option.splits prod.splits)

text \<open>
  Claim C10. For every slot and every type string \<open>isMaavaron\<close> returns false, on a mobile
  user agent and on any other, also for the type \<^verbatim>\<open>.maavaron\<close> itself; on no slot does it
  return true. So \<open>defineSlot\<close> never takes its passback branch: it adds no passback event
  (neither the definition that \<open>defineMaavaron\<close> makes nor the display) and never
  returns a passback slot.
\<close>

theorem isMaavaron_never_true:
  "isMaavaron e (s\<lparr>type_slot := Some t\<rparr>) = Inr False \<and>
   isMaavaron e s \<noteq> Inr True \<and>
   filter isPassbackEvent (events (snd (defineSlot ops e m a))) =
     filter isPassbackEvent (events m) \<and>
   fst (defineSlot ops e m a) \<noteq> Inr (PassbackSlot p)"
proof (intro conjI)
  show "isMaavaron e (s\<lparr>type_slot := Some t\<rparr>) = Inr False"
    by (simp add: isMaavaron_cases)
  show "isMaavaron e s \<noteq> Inr True"
    by (simp add: isMaavaron_cases split: option.splits)
  show "filter isPassbackEvent (events (snd (defineSlot ops e m a))) =
        filter isPassbackEvent (events m)"
  proof (cases "type_slot (heap m a)")
    case None
    then show ?thesis by (simp add: defineSlot_def isMaavaron_cases)
  next
    case (Some t)
    obtain r m1 where g: "shouldSendRequestToDfp ops e m (Some a) = (r, m1)"
      by (cases "shouldSendRequestToDfp ops e m (Some a)")
    have ev: "events m1 = events m"
      using events_gate [of ops e m "Some a"] g by simp
    show ?thesis
      using Some g ev defineGptSlot_no_passback [of e m1 a]
      by (simp add: defineSlot_def isMaavaron_cases)
  qed
  show "fst (defineSlot ops e m a) \<noteq> Inr (PassbackSlot p)"
  proof (cases "type_slot (heap m a)")
    case None
    then show ?thesis by (simp add: defineSlot_def isMaavaron_cases)
  next
    case (Some t)
    obtain r m1 where g: "shouldSendRequestToDfp ops e m (Some a) = (r, m1)"
      by (cases "shouldSendRequestToDfp ops e m (Some a)")
    show ?thesis
      using Some g defineGptSlot_handle [of e m1 a p]
      by (simp add: defineSlot_def isMaavaron_cases)
  qed
qed

theorem isMaavaron_never_true_witness:
  "isMaavaron exampleEnv (exampleSlot\<lparr>type_slot := Some adTypes_maavaron\<rparr>) = Inr False \<and>
   isMaavaron (exampleEnv\<lparr>userAgent := ''iPhone''\<rparr>)
     (exampleSlot\<lparr>type_slot := Some adTypes_maavaron\<rparr>) = Inr False \<and>
   filter isPassbackEvent
     (events (snd (defineSlot releasedResolver exampleEnv exampleManager 100))) = []"
proof -
  have ev: "filter isPassbackEvent (events exampleManager) = []"
    by (simp add: exampleManager_def)
  note a = isMaavaron_never_true [where e = exampleEnv and s = exampleSlot
      and t = adTypes_maavaron and ops = releasedResolver and m = exampleManager and a = 100]
  note b = isMaavaron_never_true [where e = "exampleEnv\<lparr>userAgent := ''iPhone''\<rparr>"
      and s = exampleSlot and t = adTypes_maavaron and ops = releasedResolver
      and m = exampleManager and a = 100]
  from a b ev show ?thesis by simp
qed


section \<open>C7: breakpoint containment\<close>

text \<open>
  Claim C7. For a responsive slot \<open>doesBreakpointContainAd\<close> returns true exactly when the
  size mapping has, under the name of the given breakpoint, an array that is neither empty
  nor the zero-size list \<^verbatim>\<open>[[0, 0]]\<close>. When the mapping has no entry under that name the
  check throws its error instead of answering. For the mapping
  \<^verbatim>\<open>{tierA: [[0, 0]], tierB: [[300, 250]]}\<close> it is false at \<^verbatim>\<open>tierA\<close> and true at
  \<^verbatim>\<open>tierB\<close>.
\<close>

theorem doesBreakpointContainAd_contains:
  assumes "responsive s"
  shows "(doesBreakpointContainAd e s bp = Inr True \<longleftrightarrow>
            (\<exists>sizes mapping. responsiveAdSizeMapping s = Some sizes \<and>
               map_of sizes (getBreakpointName e bp) = Some (SizeArray mapping) \<and>
               mapping \<noteq> [] \<and> mapping \<noteq> [Dims [0, 0]])) \<and>
         ((\<exists>sizes. responsiveAdSizeMapping s = Some sizes \<and>
             map_of sizes (getBreakpointName e bp) = None) \<longrightarrow>
            doesBreakpointContainAd e s bp = Inl (Error (invalidBreakpoint s bp))) \<and>
         (responsiveAdSizeMapping s =
            Some [(''tierA'', SizeArray [Dims [0, 0]]), (''tierB'', SizeArray [Dims [300, 250]])] \<longrightarrow>
            (getBreakpointName e bp = ''tierA'' \<longrightarrow> doesBreakpointContainAd e s bp = Inr False) \<and>
            (getBreakpointName e bp = ''tierB'' \<longrightarrow> doesBreakpointContainAd e s bp = Inr True))"
  using assms
  by (auto simp add: doesBreakpointContainAd_def split: option.splits size_entry.splits)

theorem doesBreakpointContainAd_contains_witness:
  "responsive tierSlot \<and>
   doesBreakpointContainAd exampleEnv tierSlot 0 = Inr False \<and>
   doesBreakpointContainAd exampleEnv tierSlot 1 = Inr True \<and>
   doesBreakpointContainAd (exampleEnv\<lparr>getBreakpointName := (\<lambda>b. ''tierC'')\<rparr>) tierSlot 0 =
     Inl (Error (''Invalid argument a.box: breakpoint:0 doesn'' @ [CHR 0x27] @ ''t exist!''))"
proof -
  have r: "responsive tierSlot"
    by (simp add: tierSlot_def exampleSlot_def)
  have sizes: "responsiveAdSizeMapping tierSlot =
      Some [(''tierA'', SizeArray [Dims [0, 0]]), (''tierB'', SizeArray [Dims [300, 250]])]"
    by (simp add: tierSlot_def)
  have nameA: "getBreakpointName exampleEnv 0 = ''tierA''"
    by (simp add: exampleEnv_def)
  have nameB: "getBreakpointName exampleEnv 1 = ''tierB''"
    by (simp add: exampleEnv_def)
  have missing: "\<exists>sizes. responsiveAdSizeMapping tierSlot = Some sizes \<and>
      map_of sizes (getBreakpointName (exampleEnv\<lparr>getBreakpointName := (\<lambda>b. ''tierC'')\<rparr>) 0) = None"
    by (simp add: tierSlot_def)
  have ident: "id_slot tierSlot = ''a.box''"
    by (simp add: tierSlot_def exampleSlot_def)
  note atA = doesBreakpointContainAd_contains [OF r, where e = exampleEnv and bp = 0]
  note atB = doesBreakpointContainAd_contains [OF r, where e = exampleEnv and bp = 1]
  note atC = doesBreakpointContainAd_contains
    [OF r, where e = "exampleEnv\<lparr>getBreakpointName := (\<lambda>b. ''tierC'')\<rparr>" and bp = 0]
  have a: "doesBreakpointContainAd exampleEnv tierSlot 0 = Inr False"
    using atA sizes nameA by blast
  have b: "doesBreakpointContainAd exampleEnv tierSlot 1 = Inr True"
    using atB sizes nameB by blast
  have c: "doesBreakpointContainAd (exampleEnv\<lparr>getBreakpointName := (\<lambda>b. ''tierC'')\<rparr>) tierSlot 0 =
     Inl (Error (invalidBreakpoint tierSlot 0))"
    using atC missing by blast
  have message: "invalidBreakpoint tierSlot 0 =
      ''Invalid argument a.box: breakpoint:0 doesn'' @ [CHR 0x27] @ ''t exist!''"
    by (simp add: invalidBreakpoint_def ident showInt_def)
  from r a b c message show ?thesis by simp
qed


section \<open>C3: the full-interstitial throttle\<close>

text \<open>Facts about the concrete inputs, shared by the examples below.\<close>

lemma haaretz_referrer: "isReferrerOfHaaretz (recordedEnv haaretzEnv n t)"
  by (simp add: isReferrerOfHaaretz_def recordedEnv_def haaretzEnv_def exampleEnv_def
      str_includes_def str_indexOf_def)

lemma search_referrer: "\<not> isReferrerOfHaaretz (recordedEnv exampleEnv n t)"
  by (simp add: isReferrerOfHaaretz_def recordedEnv_def exampleEnv_def
      str_includes_def str_indexOf_def)

lemma full_id: "str_includes ''home.full_interstitial.mobile'' adTypes_interstitialFull"
  by (simp add: adTypes_interstitialFull_def str_includes_def str_indexOf_def)

lemma small_id: "str_includes ''home.interstitial.mobile'' adTypes_interstitialSmall"
  by (simp add: adTypes_interstitialSmall_def str_includes_def str_indexOf_def)

lemma anonymous_not_paying: "\<not> userIsPaying exampleManager"
  by (simp add: userIsPaying_def exampleManager_def adTargets_paying_def)

lemma example_ready: "isReadyToRenderExternals exampleManager"
  by (simp add: exampleManager_def)

lemma recorded_item:
  "localInterstitial (recordedEnv e n t) =
     Some (Json \<lparr>attempt = Some n, showTime = ShowTimeString (Some t)\<rparr>)"
  by (simp add: recordedEnv_def)

lemma window_ms:
  "inInterstitialWindow (hoursSince now (Some t)) = (3000 < \<bar>now - t\<bar> \<and> \<bar>now - t\<bar> < 3780000)"
proof -
  have a: "(of_int \<bar>now - t\<bar> / 3600000 < (105 / 100 :: rat)) = (\<bar>now - t\<bar> < 3780000)"
  proof -
    have "(of_int \<bar>now - t\<bar> / 3600000 < (105 / 100 :: rat)) = ((of_int \<bar>now - t\<bar> :: rat) < of_int 3780000)"
      by (simp add: field_simps)
    also have "\<dots> = (\<bar>now - t\<bar> < 3780000)"
      by (simp only: of_int_less_iff)
    finally show ?thesis .
  qed
  have b: "((3 / 3600 :: rat) < of_int \<bar>now - t\<bar> / 3600000) = (3000 < \<bar>now - t\<bar>)"
  proof -
    have "((3 / 3600 :: rat) < of_int \<bar>now - t\<bar> / 3600000) = ((of_int 3000 :: rat) < of_int \<bar>now - t\<bar>)"
      by (simp add: field_simps)
    also have "\<dots> = (3000 < \<bar>now - t\<bar>)"
      by (simp only: of_int_less_iff)
    finally show ?thesis .
  qed
  show ?thesis
    unfolding inInterstitialWindow_def hoursSince_def GOOGLE_INTERSTITIAL_TIME_def
      GOOGLE_INTERSTITIAL_MIN_TIME_def HOUR_IN_MILLISECONDS_def
    using a b by auto
qed

text \<open>
  Claim C3, as amended. For a full-interstitial id, with a referrer of the site, a user
  who does not pay, the readiness flag set and a durable record holding an attempt count
  and a timestamp, the check is denied when the attempt count is below 3; otherwise it is
  allowed exactly when the time between the check and the timestamp lies strictly between
  3 seconds (\<open>GOOGLE_INTERSTITIAL_MIN_TIME\<close> is 3 / 3600 of an hour) and 63 minutes. With
  an attempt count of 2 the check 30 minutes after the timestamp is denied; with an
  attempt count of 3 it is allowed after 30 minutes and denied after 70 minutes.
\<close>

theorem shouldDisplayInterstitialFull_window:
  assumes "str_includes ident adTypes_interstitialFull"
      and "isReferrerOfHaaretz e"
      and "\<not> userIsPaying m"
      and "isReadyToRenderExternals m"
      and "localInterstitial e =
             Some (Json \<lparr>attempt = Some n, showTime = ShowTimeString (Some t)\<rparr>)"
  shows "shouldDisplayInterstitialFull e m ident now =
           JBool (3 \<le> n \<and> 3000 < \<bar>now - t\<bar> \<and> \<bar>now - t\<bar> < 3780000) \<and>
         (n = 2 \<longrightarrow> shouldDisplayInterstitialFull e m ident (t + 1800000) = JBool False) \<and>
         (n = 3 \<longrightarrow> shouldDisplayInterstitialFull e m ident (t + 1800000) = JBool True \<and>
                    shouldDisplayInterstitialFull e m ident (t + 4200000) = JBool False)"
proof -
  have eq: "\<And>now. shouldDisplayInterstitialFull e m ident now =
           JBool (3 \<le> n \<and> 3000 < \<bar>now - t\<bar> \<and> \<bar>now - t\<bar> < 3780000)"
    using assms
    by (auto simp add: shouldDisplayInterstitialFull_def Let_def itemTruthy_def getParsed_def
        window_ms)
  show ?thesis
    by (simp add: eq)
qed

theorem shouldDisplayInterstitialFull_window_witness:
  "shouldDisplayInterstitialFull (recordedEnv haaretzEnv 2 1000) exampleManager
     ''home.full_interstitial.mobile'' (1000 + 1800000) = JBool False \<and>
   shouldDisplayInterstitialFull (recordedEnv haaretzEnv 3 1000) exampleManager
     ''home.full_interstitial.mobile'' (1000 + 1800000) = JBool True \<and>
   shouldDisplayInterstitialFull (recordedEnv haaretzEnv 3 1000) exampleManager
     ''home.full_interstitial.mobile'' (1000 + 4200000) = JBool False \<and>
   shouldDisplayInterstitialFull (recordedEnv haaretzEnv 3 1000) exampleManager
     ''home.full_interstitial.mobile'' (1000 + 3001) = JBool True \<and>
   shouldDisplayInterstitialFull (recordedEnv haaretzEnv 3 1000) exampleManager
     ''home.full_interstitial.mobile'' (1000 + 3000) = JBool False"
proof -
  note two = shouldDisplayInterstitialFull_window
    [OF full_id haaretz_referrer anonymous_not_paying example_ready recorded_item,
     where n = 2 and t = 1000]
  note three = shouldDisplayInterstitialFull_window
    [OF full_id haaretz_referrer anonymous_not_paying example_ready recorded_item,
     where n = 3 and t = 1000]
  have a: "shouldDisplayInterstitialFull (recordedEnv haaretzEnv 2 1000) exampleManager
     ''home.full_interstitial.mobile'' (1000 + 1800000) = JBool False"
    using two by blast
  have b: "shouldDisplayInterstitialFull (recordedEnv haaretzEnv 3 1000) exampleManager
     ''home.full_interstitial.mobile'' (1000 + 1800000) = JBool True \<and>
   shouldDisplayInterstitialFull (recordedEnv haaretzEnv 3 1000) exampleManager
     ''home.full_interstitial.mobile'' (1000 + 4200000) = JBool False"
    using three by blast
  have c: "shouldDisplayInterstitialFull (recordedEnv haaretzEnv 3 1000) exampleManager
     ''home.full_interstitial.mobile'' (1000 + 3001) = JBool True"
    using three [where now = "1000 + 3001"] by simp
  have d: "shouldDisplayInterstitialFull (recordedEnv haaretzEnv 3 1000) exampleManager
     ''home.full_interstitial.mobile'' (1000 + 3000) = JBool False"
    using three [where now = "1000 + 3000"] by simp
  from a b c d show ?thesis by blast
qed

text \<open>
  The claim as the specification states it puts the lower end of the window at about 10.8
  seconds. Five seconds after the timestamp the source allows the presentation, and five
  seconds are outside the window of the specification.
\<close>

theorem fullInterstitial_cooldown_counterexample:
  "shouldDisplayInterstitialFull (recordedEnv haaretzEnv 3 1000) exampleManager
     ''home.full_interstitial.mobile'' (1000 + 5000) = JBool True \<and>
   \<not> spec_fullInterstitialWindow \<bar>(1000 + 5000) - 1000\<bar>"
proof -
  have "shouldDisplayInterstitialFull (recordedEnv haaretzEnv 3 1000) exampleManager
     ''home.full_interstitial.mobile'' (1000 + 5000) = JBool True"
    using full_id haaretz_referrer [of 3 1000] anonymous_not_paying example_ready
    by (simp add: shouldDisplayInterstitialFull_def Let_def itemTruthy_def getParsed_def
        recorded_item window_ms)
  then show ?thesis
    by (simp add: spec_fullInterstitialWindow_def)
qed


section \<open>C4: the small-interstitial throttle\<close>

text \<open>
  Claim C4, as amended. For a small-interstitial id: for a paying user the check answers
  whether the session flag is still unset, and sets the flag in either case, so it allows
  one presentation per session. For a user who does not pay the check denies exactly when
  the referrer is one of the site (\<open>isReferrerOfHaaretz\<close>) and a durable record exists
  with an attempt count of 2 or more; with any other referrer it allows.
\<close>

theorem shouldDisplayInterstitialSmall_policy:
  assumes "str_includes ident adTypes_interstitialSmall"
  shows "(userIsPaying m \<longrightarrow>
            shouldDisplayInterstitialSmall e m ident =
              (\<not> stringTruthy (sessionInterstitial e), e\<lparr>sessionInterstitial := Some ''true''\<rparr>, m)) \<and>
         (\<not> userIsPaying m \<longrightarrow>
            (fst (shouldDisplayInterstitialSmall e m ident) = False \<longleftrightarrow>
               isReferrerOfHaaretz e \<and>
               (\<exists>r n. localInterstitial e = Some (Json r) \<and> attempt r = Some n \<and> 2 \<le> n)))"
  using assms
  by (auto simp add: shouldDisplayInterstitialSmall_def Let_def itemTruthy_def getParsed_def
      emptyObject_def split: option.splits storedItem.splits)

theorem shouldDisplayInterstitialSmall_policy_witness:
  "fst (shouldDisplayInterstitialSmall exampleEnv (exampleManager\<lparr>userType := ''paying''\<rparr>)
          ''home.interstitial.mobile'') = True \<and>
   fst (shouldDisplayInterstitialSmall (exampleEnv\<lparr>sessionInterstitial := Some ''true''\<rparr>)
          (exampleManager\<lparr>userType := ''paying''\<rparr>) ''home.interstitial.mobile'') = False \<and>
   sessionInterstitial (fst (snd (shouldDisplayInterstitialSmall exampleEnv
          (exampleManager\<lparr>userType := ''paying''\<rparr>) ''home.interstitial.mobile''))) = Some ''true'' \<and>
   fst (shouldDisplayInterstitialSmall (recordedEnv haaretzEnv 2 1000) exampleManager
          ''home.interstitial.mobile'') = False \<and>
   fst (shouldDisplayInterstitialSmall (recordedEnv haaretzEnv 1 1000) exampleManager
          ''home.interstitial.mobile'') = True \<and>
   fst (shouldDisplayInterstitialSmall (recordedEnv exampleEnv 2 1000) exampleManager
          ''home.interstitial.mobile'') = True"
proof -
  have paying: "userIsPaying (exampleManager\<lparr>userType := ''paying''\<rparr>)"
    by (simp add: userIsPaying_def adTargets_paying_def)
  have s0: "\<not> stringTruthy (sessionInterstitial exampleEnv)"
    by (simp add: stringTruthy_def exampleEnv_def)
  have s1: "stringTruthy (sessionInterstitial (exampleEnv\<lparr>sessionInterstitial := Some ''true''\<rparr>))"
    by (simp add: stringTruthy_def)
  note p0 = shouldDisplayInterstitialSmall_policy
    [OF small_id, where m = "exampleManager\<lparr>userType := ''paying''\<rparr>" and e = exampleEnv]
  note p1 = shouldDisplayInterstitialSmall_policy
    [OF small_id, where m = "exampleManager\<lparr>userType := ''paying''\<rparr>"
       and e = "exampleEnv\<lparr>sessionInterstitial := Some ''true''\<rparr>"]
  note h2 = shouldDisplayInterstitialSmall_policy
    [OF small_id, where m = exampleManager and e = "recordedEnv haaretzEnv 2 1000"]
  note h1 = shouldDisplayInterstitialSmall_policy
    [OF small_id, where m = exampleManager and e = "recordedEnv haaretzEnv 1 1000"]
  note g2 = shouldDisplayInterstitialSmall_policy
    [OF small_id, where m = exampleManager and e = "recordedEnv exampleEnv 2 1000"]
  have a: "fst (shouldDisplayInterstitialSmall exampleEnv (exampleManager\<lparr>userType := ''paying''\<rparr>)
          ''home.interstitial.mobile'') = True"
    using p0 paying s0 by simp
  have b: "fst (shouldDisplayInterstitialSmall (exampleEnv\<lparr>sessionInterstitial := Some ''true''\<rparr>)
          (exampleManager\<lparr>userType := ''paying''\<rparr>) ''home.interstitial.mobile'') = False"
    using p1 paying s1 by simp
  have c: "sessionInterstitial (fst (snd (shouldDisplayInterstitialSmall exampleEnv
          (exampleManager\<lparr>userType := ''paying''\<rparr>) ''home.interstitial.mobile''))) = Some ''true''"
    using p0 paying by simp
  have d: "fst (shouldDisplayInterstitialSmall (recordedEnv haaretzEnv 2 1000) exampleManager
          ''home.interstitial.mobile'') = False"
    using h2 anonymous_not_paying haaretz_referrer [of 2 1000]
    by (simp add: recorded_item)
  have e: "fst (shouldDisplayInterstitialSmall (recordedEnv haaretzEnv 1 1000) exampleManager
          ''home.interstitial.mobile'') = True"
    using h1 anonymous_not_paying haaretz_referrer [of 1 1000]
    by (simp add: recorded_item)
  have f: "fst (shouldDisplayInterstitialSmall (recordedEnv exampleEnv 2 1000) exampleManager
          ''home.interstitial.mobile'') = True"
    using g2 anonymous_not_paying search_referrer [of 2 1000]
    by (simp add: recorded_item)
  from a b c d e f show ?thesis by blast
qed

text \<open>
  The claim as the specification states it denies on a direct or non-affiliate referrer.
  The source does the opposite: with a record of two attempts it denies the visitor who
  comes from the site and allows the one who comes from elsewhere.
\<close>

theorem smallInterstitial_referrer_counterexample:
  "fst (shouldDisplayInterstitialSmall (recordedEnv haaretzEnv 2 1000) exampleManager
          ''home.interstitial.mobile'') = False \<and>
   \<not> spec_smallInterstitialDenied (recordedEnv haaretzEnv 2 1000) \<and>
   fst (shouldDisplayInterstitialSmall (recordedEnv exampleEnv 2 1000) exampleManager
          ''home.interstitial.mobile'') = True \<and>
   spec_smallInterstitialDenied (recordedEnv exampleEnv 2 1000)"
  using small_id anonymous_not_paying haaretz_referrer [of 2 1000] search_referrer [of 2 1000]
  by (simp add: shouldDisplayInterstitialSmall_def Let_def itemTruthy_def getParsed_def
      recorded_item spec_smallInterstitialDenied_def)


section \<open>C1, C5, C8: the admission gate\<close>

text \<open>The definitions that evaluate the gate on a concrete input.\<close>

lemmas gate_defs =
  shouldSendRequestToDfp_def lateInit_def admission_def Let_def ofBool_def ofResult_def
  googleInterstitialShouldDisplay_def isGoogleInterstitial_def isWhitelisted_def
  isBlacklisted_def shouldDisplayAdInWebView_def shouldDisplayAdAfterAdBlockRemoval_def
  shouldDisplayAdMaavaronAfterPayWallBanner_def orElse_def doesBreakpointContainAd_def
  haveValidCookieForSmartphoneapp_def doesUserTypeMatchBannerTargeting_def
  str_includes_def str_indexOf_def adTypes_interstitial_def adTypes_maavaron_def
  adTypes_popunder_def adTargets_all_def

lemmas example_defs =
  exampleEnv_def exampleManager_def exampleSlot_def releasedResolver_def throwingResolver_def
  throwingManager_def throwingSlot_def blacklistManager_def misconfiguredManager_def
  lateManager_def typelessManager_def paywallEnv_def maavaronManager_def

lemma ready_lateInit: "isReadyToRenderExternals (lateInit e m a) = isReadyToRenderExternals m"
  by (simp add: lateInit_def Let_def split: option.splits)

lemma lateInit_idem: "lateInit e (lateInit e m a) a = lateInit e m a"
  by (simp add: lateInit_def Let_def split: option.splits)

lemma admission_not_ready:
  "\<not> isReadyToRenderExternals m \<Longrightarrow> admission ops e m adSlot = Inr (JBool False)"
  by (simp add: admission_def Let_def ofBool_def split: option.splits)

lemma throwing_when_ready:
  "fst (shouldSendRequestToDfp throwingResolver exampleEnv throwingManager (Some 100)) = JNull"
  by (simp add: shouldSendRequestToDfp_def lateInit_def admission_def Let_def ofBool_def
      ofResult_def googleInterstitialShouldDisplay_def isGoogleInterstitial_def
      throwingManager_def throwingSlot_def exampleSlot_def exampleManager_def)












lemma late_first:
  "fst (shouldSendRequestToDfp releasedResolver exampleEnv lateManager (Some 101)) = JBool True"
  by (simp add: gate_defs example_defs)

lemma late_element:
  "htmlElement (heap (snd (shouldSendRequestToDfp releasedResolver exampleEnv lateManager (Some 101))) 101)
     = Some \<lparr>data_audtarget = None\<rparr>"
  by (simp add: gate_defs example_defs)

text \<open>
  Claim C1. When the readiness flag is false the gate denies: the chain inside the
  \<^verbatim>\<open>try\<close> ends at the flag with the value \<^verbatim>\<open>false\<close>, whatever the other predicates would
  do. This holds for every resolver, world and slot, so also where a later predicate
  (the resolver's \<open>isBlocked\<close>, the interstitial throttle, the breakpoint check) throws:
  the exception is not raised, and the result is not the \<^verbatim>\<open>null\<close> of the \<^verbatim>\<open>catch\<close>.
\<close>

theorem gate_short_circuits:
  assumes "\<not> isReadyToRenderExternals m"
  shows "fst (shouldSendRequestToDfp ops e m adSlot) = JBool False \<and>
         admission ops e (snd (shouldSendRequestToDfp ops e m adSlot)) adSlot = Inr (JBool False)"
proof -
  have "\<not> isReadyToRenderExternals (snd (shouldSendRequestToDfp ops e m adSlot))"
    using assms
    by (simp add: shouldSendRequestToDfp_def Let_def ready_lateInit split: option.splits)
  then have a: "admission ops e (snd (shouldSendRequestToDfp ops e m adSlot)) adSlot = Inr (JBool False)"
    by (rule admission_not_ready)
  then have "fst (shouldSendRequestToDfp ops e m adSlot) = JBool False"
    by (simp add: shouldSendRequestToDfp_def Let_def)
  with a show ?thesis by simp
qed

theorem gate_short_circuits_witness:
  "fst (shouldSendRequestToDfp throwingResolver exampleEnv
          (throwingManager\<lparr>isReadyToRenderExternals := False\<rparr>) (Some 100)) = JBool False \<and>
   isBlocked throwingResolver (conflictResolver throwingManager) ''a.box'' = Inl TypeError \<and>
   googleInterstitialShouldDisplay exampleEnv throwingSlot = Inl TypeError \<and>
   doesBreakpointContainAd exampleEnv throwingSlot 0 = Inl TypeError \<and>
   fst (shouldSendRequestToDfp throwingResolver exampleEnv throwingManager (Some 100)) = JNull"
proof -
  have h: "\<not> isReadyToRenderExternals (throwingManager\<lparr>isReadyToRenderExternals := False\<rparr>)"
    by simp
  have a: "fst (shouldSendRequestToDfp throwingResolver exampleEnv
          (throwingManager\<lparr>isReadyToRenderExternals := False\<rparr>) (Some 100)) = JBool False"
    using gate_short_circuits [OF h] by blast
  have b: "isBlocked throwingResolver (conflictResolver throwingManager) ''a.box'' = Inl TypeError"
    by (simp add: throwingResolver_def)
  have c: "googleInterstitialShouldDisplay exampleEnv throwingSlot = Inl TypeError"
    by (simp add: googleInterstitialShouldDisplay_def isGoogleInterstitial_def throwingSlot_def)
  have d: "doesBreakpointContainAd exampleEnv throwingSlot 0 = Inl TypeError"
    by (simp add: doesBreakpointContainAd_def throwingSlot_def exampleSlot_def)
  from a b c d throwing_when_ready show ?thesis by blast
qed




text \<open>
  Claim C8. Calling the gate twice on a slot, with the world and the resolver unchanged,
  gives the same result both times: the second call, made on the manager the first call
  left (the first call may have filled in the slot's element and target and registered the
  slot), returns the same value and changes nothing more. The world includes the clock
  that \<open>googleInterstitialShouldDisplay\<close> reads.
\<close>

theorem gate_idempotent:
  assumes "shouldSendRequestToDfp ops e m adSlot = (r, m')"
  shows "shouldSendRequestToDfp ops e m' adSlot = (r, m')"
  using assms
  by (auto simp add: shouldSendRequestToDfp_def Let_def lateInit_idem split: option.splits)

theorem gate_idempotent_witness:
  "htmlElement (heap lateManager 101) = None \<and>
   htmlElement (heap (snd (shouldSendRequestToDfp releasedResolver exampleEnv lateManager (Some 101))) 101)
     = Some \<lparr>data_audtarget = None\<rparr> \<and>
   fst (shouldSendRequestToDfp releasedResolver exampleEnv lateManager (Some 101)) = JBool True \<and>
   shouldSendRequestToDfp releasedResolver exampleEnv
     (snd (shouldSendRequestToDfp releasedResolver exampleEnv lateManager (Some 101))) (Some 101)
     = shouldSendRequestToDfp releasedResolver exampleEnv lateManager (Some 101)"
proof -
  have h: "shouldSendRequestToDfp releasedResolver exampleEnv lateManager (Some 101) =
      (fst (shouldSendRequestToDfp releasedResolver exampleEnv lateManager (Some 101)),
       snd (shouldSendRequestToDfp releasedResolver exampleEnv lateManager (Some 101)))"
    by simp
  have again: "shouldSendRequestToDfp releasedResolver exampleEnv
     (snd (shouldSendRequestToDfp releasedResolver exampleEnv lateManager (Some 101))) (Some 101)
     = shouldSendRequestToDfp releasedResolver exampleEnv lateManager (Some 101)"
    using gate_idempotent [OF h] by simp
  have none: "htmlElement (heap lateManager 101) = None"
    by (simp add: lateManager_def)
  from none late_element late_first again show ?thesis by blast
qed

text \<open>
  The gate does not consult the small-interstitial policy. That policy, reached through
  \<open>interstitialShouldDisplay\<close>, writes the session flag: for a paying user whose flag is
  unset the first call allows and a second call denies.
\<close>

lemma interstitialShouldDisplay_second_call:
  assumes "str_includes (id_slot s) adTypes_interstitialSmall"
      and "str_includes (id_slot s) ''interstitial''"
      and "userIsPaying m"
      and "locationPathname e \<noteq> ''/''"
      and "\<not> stringTruthy (sessionInterstitial e)"
  shows "interstitialShouldDisplay e m s = (JBool True, e\<lparr>sessionInterstitial := Some ''true''\<rparr>, m) \<and>
         fst (interstitialShouldDisplay (e\<lparr>sessionInterstitial := Some ''true''\<rparr>) m s) = JBool False"
  using assms
  by (simp add: interstitialShouldDisplay_def shouldDisplayInterstitialSmall_def Let_def
      stringTruthy_def)

section \<open>C2, C6: draining the deferred set\<close>

text \<open>
  What the functions called in the drain leave alone: none of them touches the resolver,
  so only the \<^verbatim>\<open>delete\<close> of the loop changes the deferred set.
\<close>

lemma resolver_lateInit: "conflictResolver (lateInit e m a) = conflictResolver m"
  by (simp add: lateInit_def Let_def split: option.splits)

lemma resolver_gate:
  "conflictResolver (snd (shouldSendRequestToDfp ops e m adSlot)) = conflictResolver m"
  by (simp add: shouldSendRequestToDfp_def Let_def resolver_lateInit split: option.splits)

lemma resolver_defineGptSlot:
  "conflictResolver (snd (defineGptSlot e m a)) = conflictResolver m"
  by (simp add: defineGptSlot_def Let_def split: sum.splits option.splits prod.splits)

lemma resolver_defineSlot:
  "conflictResolver (snd (defineSlot ops e m a)) = conflictResolver m"
proof (cases "type_slot (heap m a)")
  case None
  then show ?thesis by (simp add: defineSlot_def isMaavaron_cases)
next
  case (Some t)
  obtain r m1 where g: "shouldSendRequestToDfp ops e m (Some a) = (r, m1)"
    by (cases "shouldSendRequestToDfp ops e m (Some a)")
  have "conflictResolver m1 = conflictResolver m"
    using resolver_gate [of ops e m "Some a"] g by simp
  then show ?thesis
    using Some g resolver_defineGptSlot [of e m1 a]
    by (simp add: defineSlot_def isMaavaron_cases)
qed

lemma resolver_show_slot: "conflictResolver (snd (show_slot e m a)) = conflictResolver m"
  by (simp add: show_slot_def Let_def split: sum.splits option.splits bool.splits)

lemma resolver_deleteDeferred:
  "deferredSlots (conflictResolver (deleteDeferred k m)) =
     removeAll k (deferredSlots (conflictResolver m))"
  by (simp add: deleteDeferred_def)

lemma heap_deleteDeferred: "heap (deleteDeferred k m) = heap m"
  by (simp add: deleteDeferred_def)

lemma drainMember_deferred:
  "deferredSlots (conflictResolver (snd (drainMember ops e m k))) =
     (if (\<exists>a. map_of (adSlots m) k = Some a \<and>
              truthy (fst (shouldSendRequestToDfp ops e m (Some a))))
      then removeAll k (deferredSlots (conflictResolver m))
      else deferredSlots (conflictResolver m))"
proof (cases "map_of (adSlots m) k")
  case None
  then show ?thesis by (simp add: drainMember_def)
next
  case (Some a)
  obtain r m1 where g: "shouldSendRequestToDfp ops e m (Some a) = (r, m1)"
    by (cases "shouldSendRequestToDfp ops e m (Some a)")
  have r1: "conflictResolver m1 = conflictResolver m"
    using resolver_gate [of ops e m "Some a"] g by simp
  show ?thesis
  proof (cases "truthy r")
    case False
    with Some g r1 show ?thesis by (simp add: drainMember_def)
  next
    case True
    define m2 where "m2 = deleteDeferred k m1"
    have d2: "deferredSlots (conflictResolver m2) = removeAll k (deferredSlots (conflictResolver m))"
      by (simp add: m2_def resolver_deleteDeferred r1)
    show ?thesis
    proof (cases "deferredSlot (heap m2 a)")
      case False
      have "drainMember ops e m k = show_slot e m2 a"
        using Some g True False by (simp add: drainMember_def m2_def)
      then show ?thesis
        using Some g True d2 by (simp add: resolver_show_slot)
    next
      case dfr: True
      obtain res m3 where d: "defineSlot ops e m2 a = (res, m3)"
        by (cases "defineSlot ops e m2 a")
      have r3: "conflictResolver m3 = conflictResolver m2"
        using resolver_defineSlot [of ops e m2 a] d by simp
      show ?thesis
      proof (cases res)
        case (Inl err)
        have "drainMember ops e m k = (Some err, m3)"
          using Some g True dfr d Inl by (simp add: drainMember_def m2_def)
        then show ?thesis
          using Some g True d2 r3 by simp
      next
        case (Inr h)
        have "drainMember ops e m k =
            show_slot e (m3\<lparr>heap := (heap m3)(a := (heap m3 a)\<lparr>deferredSlot := False\<rparr>)\<rparr>) a"
          using Some g True dfr d Inr by (simp add: drainMember_def m2_def)
        then show ?thesis
          using Some g True d2 r3 by (simp add: resolver_show_slot)
      qed
    qed
  qed
qed

lemma allOf_truthy:
  "allOf xs = Inr v \<Longrightarrow> truthy v \<Longrightarrow> x \<in> set xs \<Longrightarrow> \<exists>w. x = Inr w \<and> truthy w"
proof (induction xs rule: allOf.induct)
  case 1
  then show ?case by simp
next
  case (2 y)
  then show ?case by simp
next
  case (3 y z zs)
  then show ?case
    by (cases y) (auto split: if_splits)
qed

lemma id_lateInit: "id_slot (heap (lateInit e m a) a) = id_slot (heap m a)"
  by (simp add: lateInit_def Let_def split: option.splits)

lemma admitted_not_blocked:
  assumes "truthy (fst (shouldSendRequestToDfp ops e m (Some a)))"
  shows "isBlocked ops (conflictResolver m) (id_slot (heap m a)) = Inr False"
proof -
  define m1 where "m1 = lateInit e m a"
  obtain v where v: "admission ops e m1 (Some a) = Inr v" and t: "truthy v"
    using assms
    by (cases "admission ops e m1 (Some a)")
      (auto simp add: shouldSendRequestToDfp_def Let_def m1_def)
  have "\<exists>w. ofResult (case isBlocked ops (conflictResolver m1) (id_slot (heap m1 a)) of
                        Inl err \<Rightarrow> Inl err
                      | Inr b \<Rightarrow> Inr (b = False)) = Inr w \<and> truthy w"
    using v t unfolding admission_def Let_def option.case
    by (rule allOf_truthy) simp
  then have "isBlocked ops (conflictResolver m1) (id_slot (heap m1 a)) = Inr False"
    by (auto simp add: ofResult_def split: sum.splits)
  then show ?thesis
    by (simp add: m1_def resolver_lateInit id_lateInit)
qed

lemma showNonBlocked_subset:
  "set (deferredSlots (conflictResolver (snd (showNonBlocked ops e m ks))))
     \<subseteq> set (deferredSlots (conflictResolver m))"
proof (induction ks arbitrary: m)
  case Nil
  then show ?case by simp
next
  case (Cons k ks)
  obtain err m' where d: "drainMember ops e m k = (err, m')"
    by (cases "drainMember ops e m k")
  have sub: "set (deferredSlots (conflictResolver m')) \<subseteq> set (deferredSlots (conflictResolver m))"
    using drainMember_deferred [of ops e m k] d by (auto split: if_splits)
  show ?case
  proof (cases err)
    case None
    with d sub Cons.IH [of m'] show ?thesis by auto
  next
    case (Some x)
    with d sub show ?thesis by simp
  qed
qed

lemma showNonBlocked_keeps:
  "k \<in> set (deferredSlots (conflictResolver m)) \<Longrightarrow> k \<notin> set ks \<Longrightarrow>
     k \<in> set (deferredSlots (conflictResolver (snd (showNonBlocked ops e m ks))))"
proof (induction ks arbitrary: m)
  case Nil
  then show ?case by simp
next
  case (Cons k' ks)
  obtain err m' where d: "drainMember ops e m k' = (err, m')"
    by (cases "drainMember ops e m k'")
  have keep: "k \<in> set (deferredSlots (conflictResolver m'))"
    using drainMember_deferred [of ops e m k'] d Cons.prems by (auto split: if_splits)
  show ?case
  proof (cases err)
    case None
    with d keep Cons.IH [of m'] Cons.prems show ?thesis by auto
  next
    case (Some x)
    with d keep show ?thesis by simp
  qed
qed

lemma desktop: "isMobile exampleEnv = False"
  by (simp add: isMobile_def exampleEnv_def lowerChar_def str_includes_def str_indexOf_def)

lemmas drain_defs =
  releaseSlotDependencies_def drainMember_def defineSlot_def isMaavaron_cases
  defineGptSlot_def isOutOfPage_def show_slot_def deleteDeferred_def hide_slot_def
  adTypes_talkback_def adTypes_regular_def desktop

lemma blacklist_render:
  "deferredSlots (conflictResolver
      (slotRenderEnded releasedResolver exampleEnv blacklistManager ''a.box'' True []))
     = [''b.box'']"
  by (simp add: slotRenderEnded_def drain_defs gate_defs example_defs)

lemma blacklist_release:
  "deferredSlots (conflictResolver
      (releaseSlotDependencies releasedResolver exampleEnv blacklistManager 100)) = [''b.box'']"
  by (simp add: drain_defs gate_defs example_defs)

lemma release_not_blocking:
  assumes "updateResolvedSlot ops (conflictResolver m) (id_slot (heap m a))
             (lastResolvedSize (heap m a)) = Inr resolver"
      and "isBlocking ops resolver (id_slot (heap m a)) = Inr False"
  shows "releaseSlotDependencies ops e m a = m\<lparr>conflictResolver := resolver\<rparr>"
  using assms by (simp add: releaseSlotDependencies_def Let_def)

lemma blacklist_gate:
  "fst (shouldSendRequestToDfp releasedResolver exampleEnv blacklistManager (Some 101)) = JBool False"
  by (simp add: gate_defs example_defs)

lemma example_gate:
  "fst (shouldSendRequestToDfp releasedResolver exampleEnv blacklistManager (Some 102)) = JBool True"
  by (simp add: gate_defs example_defs)

lemma blacklist_registry:
  "map_of (adSlots blacklistManager) ''b.box'' = Some 101 \<and>
   map_of (adSlots blacklistManager) ''c.box'' = Some 102 \<and>
   deferredSlots (conflictResolver blacklistManager) = [''b.box'', ''c.box'']"
  by (simp add: example_defs)

lemma drainMember_gate_error:
  assumes "map_of (adSlots m) k = Some a"
      and "admission ops e (lateInit e m a) (Some a) = Inl err"
  shows "drainMember ops e m k = (None, lateInit e m a)"
  using assms by (simp add: drainMember_def shouldSendRequestToDfp_def Let_def)

lemma drainMember_threw_admitted:
  assumes "drainMember ops e m k = (Some err, m')"
  shows "\<exists>a. map_of (adSlots m) k = Some a \<and>
             truthy (fst (shouldSendRequestToDfp ops e m (Some a)))"
proof (cases "map_of (adSlots m) k")
  case None
  with assms show ?thesis by (simp add: drainMember_def)
next
  case (Some a)
  show ?thesis
  proof (cases "truthy (fst (shouldSendRequestToDfp ops e m (Some a)))")
    case True
    with Some show ?thesis by simp
  next
    case False
    with assms Some show ?thesis
      by (simp add: drainMember_def Let_def split: prod.splits)
  qed
qed

lemma typeless_registry: "map_of (adSlots typelessManager) ''b.box'' = Some 101"
  by (simp add: typelessManager_def exampleManager_def)

lemma typeless_lateInit: "lateInit exampleEnv typelessManager 101 = typelessManager"
  by (simp add: lateInit_def typelessManager_def exampleManager_def exampleSlot_def)

lemma typeless_admission:
  "admission releasedResolver exampleEnv typelessManager (Some 101) = Inl TypeError"
  by (simp add: gate_defs example_defs typelessManager_def)

lemma typeless_deferred:
  "deferredSlots (conflictResolver
      (releaseSlotDependencies releasedResolver exampleEnv typelessManager 100)) = [''b.box'']"
  by (simp add: drain_defs gate_defs example_defs typelessManager_def)

lemma typeless_events:
  "events (releaseSlotDependencies releasedResolver exampleEnv typelessManager 100) =
     [GptDefine False ''c.box'', CmdShow 102]"
  by (simp add: drain_defs gate_defs example_defs typelessManager_def)

lemma misconfigured_member:
  "fst (drainMember releasedResolver exampleEnv misconfiguredManager ''b.box'') = Some TypeError"
  by (simp add: drain_defs gate_defs example_defs)

lemma misconfigured_deferred:
  "deferredSlots (conflictResolver
      (releaseSlotDependencies releasedResolver exampleEnv misconfiguredManager 100)) = [''c.box'']"
  by (simp add: drain_defs gate_defs example_defs)

lemma misconfigured_events:
  "events (releaseSlotDependencies releasedResolver exampleEnv misconfiguredManager 100) =
     [GptDefine False ''b.box'', AddSize ''tierA'' [Dims [300, 250]]]"
  by (simp add: drain_defs gate_defs example_defs)

lemma misconfigured_gate:
  "fst (shouldSendRequestToDfp releasedResolver exampleEnv misconfiguredManager (Some 102))
     = JBool True"
  by (simp add: gate_defs example_defs)

lemma example_deferred:
  "deferredSlots (conflictResolver
      (releaseSlotDependencies releasedResolver exampleEnv exampleManager 100)) = []"
  by (simp add: drain_defs gate_defs example_defs)

lemma example_events:
  "events (releaseSlotDependencies releasedResolver exampleEnv exampleManager 100) =
     [GptDefine False ''b.box'', CmdShow 101, GptDefine False ''c.box'', CmdShow 102]"

text \<open>
  One iteration of the drain changes one slot object, the one registered under the id it
  is given, and leaves the manager's flags, the resolver's internals and the registry as
  they were. The gate reads nothing else, so its verdict on a member that is still to
  come is the verdict in the state the drain started from.
\<close>

  by (simp add: drain_defs gate_defs example_defs)


lemma touchesOnly_refl: "touchesOnly a m m"
  by (simp add: touchesOnly_def)

lemma touchesOnly_trans: "touchesOnly a m m' \<Longrightarrow> touchesOnly a m' m'' \<Longrightarrow> touchesOnly a m m''"
  by (auto simp add: touchesOnly_def)

lemma touchesOnly_lateInit: "touchesOnly a m (lateInit e m a)"
  by (auto simp add: touchesOnly_def flags_def lateInit_def Let_def AList.update_conv'
      split: option.splits)

lemma touchesOnly_gate: "touchesOnly a m (snd (shouldSendRequestToDfp ops e m (Some a)))"
  by (simp add: shouldSendRequestToDfp_def Let_def touchesOnly_lateInit)

lemma touchesOnly_defineGptSlot: "touchesOnly a m (snd (defineGptSlot e m a))"
  by (auto simp add: touchesOnly_def flags_def defineGptSlot_def Let_def
      split: sum.splits option.splits prod.splits)

lemma touchesOnly_defineSlot: "touchesOnly a m (snd (defineSlot ops e m a))"
proof (cases "type_slot (heap m a)")
  case None
  then show ?thesis by (simp add: defineSlot_def isMaavaron_cases touchesOnly_refl)
next
  case (Some t)
  obtain r m1 where g: "shouldSendRequestToDfp ops e m (Some a) = (r, m1)"
    by (cases "shouldSendRequestToDfp ops e m (Some a)")
  have t1: "touchesOnly a m m1"
    using touchesOnly_gate [of a m ops e] g by simp
  have t2: "touchesOnly a m1 (snd (defineGptSlot e m1 a))"
    by (rule touchesOnly_defineGptSlot)
  show ?thesis
    using Some g t1 touchesOnly_trans [OF t1 t2]
    by (simp add: defineSlot_def isMaavaron_cases)
qed

lemma touchesOnly_show_slot: "touchesOnly a m (snd (show_slot e m a))"
  by (auto simp add: touchesOnly_def flags_def show_slot_def Let_def
      split: sum.splits option.splits bool.splits)

lemma touchesOnly_deleteDeferred: "touchesOnly a m (deleteDeferred k m)"
  by (simp add: touchesOnly_def flags_def deleteDeferred_def)

lemma touchesOnly_undefer:
  "touchesOnly a m (m\<lparr>heap := (heap m)(a := (heap m a)\<lparr>deferredSlot := False\<rparr>)\<rparr>)"
  by (simp add: touchesOnly_def flags_def)

lemma drainMember_unregistered:
  "map_of (adSlots m) k = None \<Longrightarrow> drainMember ops e m k = (None, m)"
  by (simp add: drainMember_def)

lemma touchesOnly_drainMember:
  assumes "map_of (adSlots m) k = Some a"
  shows "touchesOnly a m (snd (drainMember ops e m k))"
proof -
  obtain r m1 where g: "shouldSendRequestToDfp ops e m (Some a) = (r, m1)"
    by (cases "shouldSendRequestToDfp ops e m (Some a)")
  have t1: "touchesOnly a m m1"
    using touchesOnly_gate [of a m ops e] g by simp
  show ?thesis
  proof (cases "truthy r")
    case False
    with assms g t1 show ?thesis by (simp add: drainMember_def)
  next
    case True
    define m2 where "m2 = deleteDeferred k m1"
    have t2: "touchesOnly a m m2"
      using touchesOnly_trans [OF t1 touchesOnly_deleteDeferred [of a m1 k]]
      by (simp add: m2_def)
    show ?thesis
    proof (cases "deferredSlot (heap m2 a)")
      case False
      have "drainMember ops e m k = show_slot e m2 a"
        using assms g True False by (simp add: drainMember_def m2_def)
      then show ?thesis
        using touchesOnly_trans [OF t2 touchesOnly_show_slot [of a m2 e]] by simp
    next
      case dfr: True
      obtain res m3 where d: "defineSlot ops e m2 a = (res, m3)"
        by (cases "defineSlot ops e m2 a")
      have t3: "touchesOnly a m m3"
        using touchesOnly_trans [OF t2 touchesOnly_defineSlot [of a m2 ops e]] d by simp
      show ?thesis
      proof (cases res)
        case (Inl err)
        have "drainMember ops e m k = (Some err, m3)"
          using assms g True dfr d Inl by (simp add: drainMember_def m2_def)
        with t3 show ?thesis by simp
      next
        case (Inr h)
        define m4 where "m4 = m3\<lparr>heap := (heap m3)(a := (heap m3 a)\<lparr>deferredSlot := False\<rparr>)\<rparr>"
        have t4: "touchesOnly a m m4"
          using touchesOnly_trans [OF t3 touchesOnly_undefer [of a m3]] by (simp add: m4_def)
        have "drainMember ops e m k = show_slot e m4 a"
          using assms g True dfr d Inr by (simp add: drainMember_def m2_def m4_def)
        then show ?thesis
          using touchesOnly_trans [OF t4 touchesOnly_show_slot [of a m4 e]] by simp
      qed
    qed
  qed
qed

lemma admission_agree:
  assumes "flags m' = flags m"
      and "heap m' a = heap m a"
      and "isBlocked ops (conflictResolver m') (id_slot (heap m a)) =
           isBlocked ops (conflictResolver m) (id_slot (heap m a))"
  shows "admission ops e m' (Some a) = admission ops e m (Some a)"
proof -
  have f: "isReadyToRenderExternals m' = isReadyToRenderExternals m"
    "isWebView m' = isWebView m" "userType m' = userType m" "configSite m' = configSite m"
    "adBlockRemoved m' = adBlockRemoved m" "isValidForsmartPhone m' = isValidForsmartPhone m"
    using assms(1) by (simp_all add: flags_def)
  have p1: "shouldDisplayAdInWebView e m' s = shouldDisplayAdInWebView e m s" for s
    by (simp add: shouldDisplayAdInWebView_def f)
  have p2: "shouldDisplayAdAfterAdBlockRemoval m' s = shouldDisplayAdAfterAdBlockRemoval m s" for s
    by (simp add: shouldDisplayAdAfterAdBlockRemoval_def f)
  have p3: "shouldDisplayAdMaavaronAfterPayWallBanner e m' s =
            shouldDisplayAdMaavaronAfterPayWallBanner e m s" for s
    by (simp add: shouldDisplayAdMaavaronAfterPayWallBanner_def f)
  have p4: "haveValidCookieForSmartphoneapp m' = haveValidCookieForSmartphoneapp m"
    by (simp add: haveValidCookieForSmartphoneapp_def f)
  have p5: "doesUserTypeMatchBannerTargeting e m' s = doesUserTypeMatchBannerTargeting e m s" for s
    by (simp add: doesUserTypeMatchBannerTargeting_def f)
  show ?thesis
    unfolding admission_def Let_def option.case
    by (simp only: f p1 p2 p3 p4 p5 assms(2) assms(3) cong: option.case_cong)
qed

lemma heap_lateInit_agree:
  "heap m' a = heap m a \<Longrightarrow> heap (lateInit e m' a) a = heap (lateInit e m a) a"
  by (simp add: lateInit_def Let_def split: option.splits)

lemma flags_lateInit: "flags (lateInit e m a) = flags m"
  by (simp add: flags_def lateInit_def Let_def split: option.splits)

lemma gate_agree:
  assumes "flags m' = flags m"
      and "heap m' a = heap m a"
      and "isBlocked ops (conflictResolver m') (id_slot (heap m a)) =
           isBlocked ops (conflictResolver m) (id_slot (heap m a))"
  shows "fst (shouldSendRequestToDfp ops e m' (Some a)) =
         fst (shouldSendRequestToDfp ops e m (Some a))"
proof -
  have "admission ops e (lateInit e m' a) (Some a) = admission ops e (lateInit e m a) (Some a)"
  proof (rule admission_agree)
    show "flags (lateInit e m' a) = flags (lateInit e m a)"
      using assms(1) by (simp add: flags_lateInit)
    show "heap (lateInit e m' a) a = heap (lateInit e m a) a"
      using assms(2) by (rule heap_lateInit_agree)
    show "isBlocked ops (conflictResolver (lateInit e m' a)) (id_slot (heap (lateInit e m a) a)) =
          isBlocked ops (conflictResolver (lateInit e m a)) (id_slot (heap (lateInit e m a) a))"
      using assms(3) by (simp add: resolver_lateInit id_lateInit)
  qed
  then show ?thesis
    by (simp add: shouldSendRequestToDfp_def Let_def)
qed

lemma resolver_differs_in_deferred:
  fixes r r' :: "'c conflictResolver"
  assumes "internals r' = internals r"
  shows "r' = r\<lparr>deferredSlots := deferredSlots r'\<rparr>"
  using assms by (cases r, cases r') simp

lemma isBlocked_agree:
  assumes "\<forall>r ds k. isBlocked ops (r\<lparr>deferredSlots := ds\<rparr>) k = isBlocked ops r k"
      and "internals (conflictResolver m') = internals (conflictResolver m)"
  shows "isBlocked ops (conflictResolver m') k = isBlocked ops (conflictResolver m) k"
proof -
  have "conflictResolver m' =
      (conflictResolver m)\<lparr>deferredSlots := deferredSlots (conflictResolver m')\<rparr>"
    using assms(2) by (rule resolver_differs_in_deferred)
  then have "isBlocked ops (conflictResolver m') k =
      isBlocked ops ((conflictResolver m)\<lparr>deferredSlots := deferredSlots (conflictResolver m')\<rparr>) k"
    by simp
  with assms(1) show ?thesis by simp
qed

lemma drainMember_deferred_admits:
  "deferredSlots (conflictResolver (snd (drainMember ops e m k))) =
     (if gateAdmits ops e m k
      then removeAll k (deferredSlots (conflictResolver m))
      else deferredSlots (conflictResolver m))"
  using drainMember_deferred [of ops e m k]
  by (simp add: gateAdmits_def split: option.splits)

lemma gateAdmits_kept:
  assumes t: "touchesOnly a m m'"
      and ka: "map_of (adSlots m) k = Some a"
      and ida: "id_slot (heap m a) = k"
      and ne: "k' \<noteq> k"
      and reg: "case map_of (adSlots m) k' of None \<Rightarrow> True | Some b \<Rightarrow> id_slot (heap m b) = k'"
      and indep: "\<forall>r ds i. isBlocked ops (r\<lparr>deferredSlots := ds\<rparr>) i = isBlocked ops r i"
  shows "gateAdmits ops e m' k' = gateAdmits ops e m k'"
proof -
  have maps: "map_of (adSlots m') = map_of (adSlots m)"
    using t ka ida by (simp add: touchesOnly_def)
  show ?thesis
  proof (cases "map_of (adSlots m) k'")
    case None
    with maps show ?thesis by (simp add: gateAdmits_def)
  next
    case (Some b)
    with reg have idb: "id_slot (heap m b) = k'" by simp
    with ida ne have "b \<noteq> a" by auto
    with t have hb: "heap m' b = heap m b" by (simp add: touchesOnly_def)
    have fl: "flags m' = flags m" using t by (simp add: touchesOnly_def)
    have "internals (conflictResolver m') = internals (conflictResolver m)"
      using t by (simp add: touchesOnly_def)
    with indep have bl: "isBlocked ops (conflictResolver m') (id_slot (heap m b)) =
        isBlocked ops (conflictResolver m) (id_slot (heap m b))"
      by (rule isBlocked_agree)
    have "fst (shouldSendRequestToDfp ops e m' (Some b)) =
          fst (shouldSendRequestToDfp ops e m (Some b))"
      using fl hb bl by (rule gate_agree)
    with Some maps show ?thesis by (simp add: gateAdmits_def)
  qed
qed

lemma registry_kept:
  assumes t: "touchesOnly a m m'"
      and ka: "map_of (adSlots m) k = Some a"
      and ida: "id_slot (heap m a) = k"
      and reg: "registryKeysAreIds m ks"
  shows "registryKeysAreIds m' ks"
proof -
  have maps: "map_of (adSlots m') = map_of (adSlots m)"
    using t ka ida by (simp add: touchesOnly_def)
  have ids: "id_slot (heap m' b) = id_slot (heap m b)" for b
    using t by (cases "b = a") (simp_all add: touchesOnly_def)
  show ?thesis
    using reg by (simp add: registryKeysAreIds_def maps ids cong: option.case_cong)
qed

lemma showNonBlocked_final:
  assumes indep: "\<forall>r ds i. isBlocked ops (r\<lparr>deferredSlots := ds\<rparr>) i = isBlocked ops r i"
  shows "showNonBlocked ops e m ks = (None, m') \<Longrightarrow> distinct ks \<Longrightarrow>
         registryKeysAreIds m ks \<Longrightarrow>
         deferredSlots (conflictResolver m') =
           filter (\<lambda>k. \<not> (k \<in> set ks \<and> gateAdmits ops e m k))
             (deferredSlots (conflictResolver m))"
proof (induction ks arbitrary: m)
  case Nil
  then show ?case by simp
next
  case (Cons k ks)
  obtain err m1 where d: "drainMember ops e m k = (err, m1)"
    by (cases "drainMember ops e m k")
  from Cons.prems(1) d have none: "err = None" and rest: "showNonBlocked ops e m1 ks = (None, m')"
    by (auto split: option.splits)
  have d1: "deferredSlots (conflictResolver m1) =
      (if gateAdmits ops e m k
       then removeAll k (deferredSlots (conflictResolver m))
       else deferredSlots (conflictResolver m))"
    using drainMember_deferred_admits [of ops e m k] d by simp
  have regk: "case map_of (adSlots m) k of None \<Rightarrow> True | Some a \<Rightarrow> id_slot (heap m a) = k"
    using Cons.prems(3) by (simp add: registryKeysAreIds_def)
  have regks: "registryKeysAreIds m ks"
    using Cons.prems(3) by (simp add: registryKeysAreIds_def)
  have inv1: "registryKeysAreIds m1 ks"
   and adm: "\<And>k'. k' \<in> set ks \<Longrightarrow> gateAdmits ops e m1 k' = gateAdmits ops e m k'"
  proof -
    show "registryKeysAreIds m1 ks"
    proof (cases "map_of (adSlots m) k")
      case None
      then have "m1 = m" using drainMember_unregistered [of m k ops e] d by simp
      with regks show ?thesis by simp
    next
      case (Some a)
      have t: "touchesOnly a m m1"
        using touchesOnly_drainMember [OF Some, of ops e] d by simp
      from regk Some have ida: "id_slot (heap m a) = k" by simp
      show ?thesis using t Some ida regks by (rule registry_kept)
    qed
    fix k' assume mem: "k' \<in> set ks"
    with Cons.prems(2) have ne: "k' \<noteq> k" by auto
    have reg': "case map_of (adSlots m) k' of None \<Rightarrow> True | Some b \<Rightarrow> id_slot (heap m b) = k'"
      using regks mem by (simp add: registryKeysAreIds_def list_all_iff)
    show "gateAdmits ops e m1 k' = gateAdmits ops e m k'"
    proof (cases "map_of (adSlots m) k")
      case None
      then have "m1 = m" using drainMember_unregistered [of m k ops e] d by simp
      then show ?thesis by simp
    next
      case (Some a)
      have t: "touchesOnly a m m1"
        using touchesOnly_drainMember [OF Some, of ops e] d by simp
      from regk Some have ida: "id_slot (heap m a) = k" by simp
      show ?thesis using t Some ida ne reg' indep by (rule gateAdmits_kept)
    qed
  qed
  from Cons.prems(2) have dist: "distinct ks" and knot: "k \<notin> set ks" by auto
  have ih: "deferredSlots (conflictResolver m') =
      filter (\<lambda>x. \<not> (x \<in> set ks \<and> gateAdmits ops e m1 x)) (deferredSlots (conflictResolver m1))"
    using Cons.IH [OF rest dist inv1] .
  have same: "filter (\<lambda>x. \<not> (x \<in> set ks \<and> gateAdmits ops e m1 x)) xs =
              filter (\<lambda>x. \<not> (x \<in> set ks \<and> gateAdmits ops e m x)) xs" for xs
    by (rule filter_cong) (auto simp add: adm)
  show ?case
  proof (cases "gateAdmits ops e m k")
    case True
    have "deferredSlots (conflictResolver m') =
        filter (\<lambda>x. \<not> (x \<in> set ks \<and> gateAdmits ops e m x))
          (removeAll k (deferredSlots (conflictResolver m)))"
      using ih d1 True same by simp
    also have "\<dots> = filter (\<lambda>x. \<not> (x \<in> set (k # ks) \<and> gateAdmits ops e m x))
          (deferredSlots (conflictResolver m))"
      using True by (auto simp add: removeAll_filter_not_eq intro: filter_cong)
    finally show ?thesis .
  next
    case False
    have "deferredSlots (conflictResolver m') =
        filter (\<lambda>x. \<not> (x \<in> set ks \<and> gateAdmits ops e m x))
          (deferredSlots (conflictResolver m))"
      using ih d1 False same by simp
    also have "\<dots> = filter (\<lambda>x. \<not> (x \<in> set (k # ks) \<and> gateAdmits ops e m x))
          (deferredSlots (conflictResolver m))"
      using False by (auto intro: filter_cong)
    finally show ?thesis .
  qed
qed

lemma hideBlocked_frame:
  "hideBlocked ops m ks = (err, m') \<Longrightarrow>
     flags m' = flags m \<and> conflictResolver m' = conflictResolver m \<and>
     heap m' = heap m \<and> adSlots m' = adSlots m"
proof (induction ks arbitrary: m)
  case Nil
  then show ?case by simp
next
  case (Cons k ks)
  show ?case
  proof (cases "isBlocked ops (conflictResolver m) k")
    case (Inl x)
    with Cons.prems show ?thesis by simp
  next
    case (Inr b)
    show ?thesis
    proof (cases b)
      case False
      with Inr Cons.prems Cons.IH [of m] show ?thesis by simp
    next
      case True
      show ?thesis
      proof (cases "map_of (adSlots m) k")
        case None
        with Inr True Cons.prems Cons.IH [of m] show ?thesis by simp
      next
        case (Some a)
        with Inr True Cons.prems have "hideBlocked ops (hide_slot m a) ks = (err, m')" by simp
        from Cons.IH [OF this] show ?thesis by (simp add: hide_slot_def flags_def)
      qed
    qed
  qed
qed

lemma gateAdmits_frame:
  assumes "flags m' = flags m" and "conflictResolver m' = conflictResolver m"
      and "heap m' = heap m" and "adSlots m' = adSlots m"
  shows "gateAdmits ops e m' k = gateAdmits ops e m k"
proof (cases "map_of (adSlots m) k")
  case None
  with assms(4) show ?thesis by (simp add: gateAdmits_def)
next
  case (Some b)
  have "fst (shouldSendRequestToDfp ops e m' (Some b)) =
        fst (shouldSendRequestToDfp ops e m (Some b))"
    by (rule gate_agree) (simp_all add: assms)
  with Some assms(4) show ?thesis by (simp add: gateAdmits_def)
qed

lemma release_drains:
  assumes up: "updateResolvedSlot ops (conflictResolver m) (id_slot (heap m a))
                 (lastResolvedSize (heap m a)) = Inr resolver"
      and bl: "isBlocking ops resolver (id_slot (heap m a)) = Inr True"
      and gb: "getBlockedSlotsIds ops resolver (id_slot (heap m a)) = Inr blocked"
      and hb: "hideBlocked ops (m\<lparr>conflictResolver := resolver\<rparr>) blocked = (None, m2)"
      and lp: "showNonBlocked ops e m2 (deferredSlots resolver) = (None, m3)"
      and dist: "distinct (deferredSlots resolver)"
      and reg: "registryKeysAreIds m (deferredSlots resolver)"
      and indep: "\<forall>r ds i. isBlocked ops (r\<lparr>deferredSlots := ds\<rparr>) i = isBlocked ops r i"
  shows "releaseSlotDependencies ops e m a = m3 \<and>
         deferredSlots (conflictResolver m3) =
           filter (\<lambda>k. \<not> gateAdmits ops e (m\<lparr>conflictResolver := resolver\<rparr>) k)
             (deferredSlots resolver)"
proof -
  define m1 where "m1 = m\<lparr>conflictResolver := resolver\<rparr>"
  have fr: "flags m2 = flags m1 \<and> conflictResolver m2 = conflictResolver m1 \<and>
            heap m2 = heap m1 \<and> adSlots m2 = adSlots m1"
    using hideBlocked_frame [of ops m1 blocked None m2] hb by (simp add: m1_def)
  then have r2: "conflictResolver m2 = resolver" by (simp add: m1_def)
  have rel: "releaseSlotDependencies ops e m a = m3"
    using up bl gb hb lp r2 by (simp add: releaseSlotDependencies_def Let_def)
  have reg2: "registryKeysAreIds m2 (deferredSlots resolver)"
    using reg fr by (simp add: registryKeysAreIds_def m1_def cong: option.case_cong)
  have "deferredSlots (conflictResolver m3) =
      filter (\<lambda>k. \<not> (k \<in> set (deferredSlots resolver) \<and> gateAdmits ops e m2 k))
        (deferredSlots (conflictResolver m2))"
    using showNonBlocked_final [OF indep lp dist reg2] .
  also have "\<dots> = filter (\<lambda>k. \<not> gateAdmits ops e m1 k) (deferredSlots resolver)"
    unfolding r2
    by (rule filter_cong) (auto simp add: gateAdmits_frame [of m2 m1] fr)
  finally show ?thesis using rel by (simp add: m1_def)
qed

lemma blacklist_loop:
  "fst (showNonBlocked releasedResolver exampleEnv blacklistManager [''b.box'', ''c.box'']) = None"
  by (simp add: drain_defs gate_defs example_defs)

lemma blacklist_admits:
  "gateAdmits releasedResolver exampleEnv blacklistManager ''b.box'' = False \<and>
   gateAdmits releasedResolver exampleEnv blacklistManager ''c.box'' = True"
  by (simp add: gateAdmits_def blacklist_registry blacklist_gate example_gate)

lemma blacklist_invariant:
  "distinct (deferredSlots (conflictResolver blacklistManager)) \<and>
   registryKeysAreIds blacklistManager (deferredSlots (conflictResolver blacklistManager))"
  by (simp add: registryKeysAreIds_def example_defs)

text \<open>
  Claim C2, as amended. When the slot whose outcome was registered blocks others,
  \<open>releaseSlotDependencies\<close> hides the slots it blocks and then runs the gate over every
  member of the deferred set, in the order of the set. Provided that no exception is raised
  in that pass, that every member is registered under its own id, and that the answer of
  the resolver's \<open>isBlocked\<close> does not depend on the deferred set, the deferred set after
  the drain is the deferred set before it without the members the gate admits, each
  member being judged in the state the drain starts from: a member leaves the set exactly
  when it is registered and the re-run gate admits it. Admission requires that the
  resolver no longer reports the member blocked, and a member the gate refuses stays in
  the set although it is not blocked. The same holds of the loop alone over any list of
  distinct ids and of one iteration. When \<open>isBlocking\<close> answers false the drain does not run:
  \<open>releaseSlotDependencies\<close> only records the outcome.
\<close>

theorem drain_removes_admitted_only:
  "(updateResolvedSlot ops (conflictResolver m) (id_slot (heap m a))
        (lastResolvedSize (heap m a)) = Inr resolver \<and>
      isBlocking ops resolver (id_slot (heap m a)) = Inr True \<and>
      getBlockedSlotsIds ops resolver (id_slot (heap m a)) = Inr blocked \<and>
      hideBlocked ops (m\<lparr>conflictResolver := resolver\<rparr>) blocked = (None, m2) \<and>
      showNonBlocked ops e m2 (deferredSlots resolver) = (None, m3) \<and>
      distinct (deferredSlots resolver) \<and>
      registryKeysAreIds m (deferredSlots resolver) \<and>
      (\<forall>r ds i. isBlocked ops (r\<lparr>deferredSlots := ds\<rparr>) i = isBlocked ops r i) \<longrightarrow>
      releaseSlotDependencies ops e m a = m3 \<and>
      deferredSlots (conflictResolver m3) =
        filter (\<lambda>k. \<not> gateAdmits ops e (m\<lparr>conflictResolver := resolver\<rparr>) k)
          (deferredSlots resolver)) \<and>
   (showNonBlocked ops e m ks = (None, m') \<and> distinct ks \<and> registryKeysAreIds m ks \<and>
      (\<forall>r ds i. isBlocked ops (r\<lparr>deferredSlots := ds\<rparr>) i = isBlocked ops r i) \<longrightarrow>
      deferredSlots (conflictResolver m') =
        filter (\<lambda>k. \<not> (k \<in> set ks \<and> gateAdmits ops e m k))
          (deferredSlots (conflictResolver m))) \<and>
   deferredSlots (conflictResolver (snd (drainMember ops e m k))) =
     (if gateAdmits ops e m k
      then removeAll k (deferredSlots (conflictResolver m))
      else deferredSlots (conflictResolver m)) \<and>
   (gateAdmits ops e m k \<longrightarrow>
      (\<exists>b. map_of (adSlots m) k = Some b \<and>
           isBlocked ops (conflictResolver m) (id_slot (heap m b)) = Inr False)) \<and>
   (updateResolvedSlot ops (conflictResolver m) (id_slot (heap m a))
        (lastResolvedSize (heap m a)) = Inr resolver \<and>
      isBlocking ops resolver (id_slot (heap m a)) = Inr False \<longrightarrow>
      releaseSlotDependencies ops e m a = m\<lparr>conflictResolver := resolver\<rparr>)"
proof (intro conjI impI)
  assume h: "updateResolvedSlot ops (conflictResolver m) (id_slot (heap m a))
        (lastResolvedSize (heap m a)) = Inr resolver \<and>
      isBlocking ops resolver (id_slot (heap m a)) = Inr True \<and>
      getBlockedSlotsIds ops resolver (id_slot (heap m a)) = Inr blocked \<and>
      hideBlocked ops (m\<lparr>conflictResolver := resolver\<rparr>) blocked = (None, m2) \<and>
      showNonBlocked ops e m2 (deferredSlots resolver) = (None, m3) \<and>
      distinct (deferredSlots resolver) \<and>
      registryKeysAreIds m (deferredSlots resolver) \<and>
      (\<forall>r ds i. isBlocked ops (r\<lparr>deferredSlots := ds\<rparr>) i = isBlocked ops r i)"
  have both: "releaseSlotDependencies ops e m a = m3 \<and>
      deferredSlots (conflictResolver m3) =
        filter (\<lambda>k. \<not> gateAdmits ops e (m\<lparr>conflictResolver := resolver\<rparr>) k)
          (deferredSlots resolver)"
    using release_drains [of ops m a resolver blocked m2 e m3] h by blast
  from both show "releaseSlotDependencies ops e m a = m3" by simp
  from both show "deferredSlots (conflictResolver m3) =
        filter (\<lambda>k. \<not> gateAdmits ops e (m\<lparr>conflictResolver := resolver\<rparr>) k)
          (deferredSlots resolver)" by simp
next
  assume h: "showNonBlocked ops e m ks = (None, m') \<and> distinct ks \<and> registryKeysAreIds m ks \<and>
      (\<forall>r ds i. isBlocked ops (r\<lparr>deferredSlots := ds\<rparr>) i = isBlocked ops r i)"
  then show "deferredSlots (conflictResolver m') =
        filter (\<lambda>k. \<not> (k \<in> set ks \<and> gateAdmits ops e m k))
          (deferredSlots (conflictResolver m))"
    using showNonBlocked_final [of ops e m ks m'] by simp
next
  show "deferredSlots (conflictResolver (snd (drainMember ops e m k))) =
     (if gateAdmits ops e m k
      then removeAll k (deferredSlots (conflictResolver m))
      else deferredSlots (conflictResolver m))"
    by (rule drainMember_deferred_admits)
next
  assume "gateAdmits ops e m k"
  then show "\<exists>b. map_of (adSlots m) k = Some b \<and>
           isBlocked ops (conflictResolver m) (id_slot (heap m b)) = Inr False"
    using admitted_not_blocked [of ops e m]
    by (auto simp add: gateAdmits_def split: option.splits)
next
  assume "updateResolvedSlot ops (conflictResolver m) (id_slot (heap m a))
        (lastResolvedSize (heap m a)) = Inr resolver \<and>
      isBlocking ops resolver (id_slot (heap m a)) = Inr False"
  then show "releaseSlotDependencies ops e m a = m\<lparr>conflictResolver := resolver\<rparr>"
    using release_not_blocking [of ops m a resolver e] by simp
qed

theorem drain_removes_admitted_only_witness:
  "isBlocked releasedResolver (conflictResolver blacklistManager) ''b.box'' = Inr False \<and>
   gateAdmits releasedResolver exampleEnv blacklistManager ''b.box'' = False \<and>
   gateAdmits releasedResolver exampleEnv blacklistManager ''c.box'' = True \<and>
   deferredSlots (conflictResolver blacklistManager) = [''b.box'', ''c.box''] \<and>
   releaseSlotDependencies releasedResolver exampleEnv blacklistManager 100 =
     snd (showNonBlocked releasedResolver exampleEnv blacklistManager [''b.box'', ''c.box'']) \<and>
   deferredSlots (conflictResolver
      (releaseSlotDependencies releasedResolver exampleEnv blacklistManager 100)) = [''b.box'']"
proof -
  define m3 where
    "m3 = snd (showNonBlocked releasedResolver exampleEnv blacklistManager [''b.box'', ''c.box''])"
  have ds: "deferredSlots (conflictResolver blacklistManager) = [''b.box'', ''c.box'']"
    by (simp add: blacklist_registry)
  have loop: "showNonBlocked releasedResolver exampleEnv blacklistManager
      (deferredSlots (conflictResolver blacklistManager)) = (None, m3)"
    unfolding ds m3_def using blacklist_loop
    by (cases "showNonBlocked releasedResolver exampleEnv blacklistManager [''b.box'', ''c.box'']")
      simp
  have same: "blacklistManager\<lparr>conflictResolver := conflictResolver blacklistManager\<rparr>
      = blacklistManager"
    by simp
  have hyp: "updateResolvedSlot releasedResolver (conflictResolver blacklistManager)
        (id_slot (heap blacklistManager 100)) (lastResolvedSize (heap blacklistManager 100))
        = Inr (conflictResolver blacklistManager) \<and>
      isBlocking releasedResolver (conflictResolver blacklistManager)
        (id_slot (heap blacklistManager 100)) = Inr True \<and>
      getBlockedSlotsIds releasedResolver (conflictResolver blacklistManager)
        (id_slot (heap blacklistManager 100)) = Inr [] \<and>
      hideBlocked releasedResolver
        (blacklistManager\<lparr>conflictResolver := conflictResolver blacklistManager\<rparr>) []
        = (None, blacklistManager) \<and>
      showNonBlocked releasedResolver exampleEnv blacklistManager
        (deferredSlots (conflictResolver blacklistManager)) = (None, m3) \<and>
      distinct (deferredSlots (conflictResolver blacklistManager)) \<and>
      registryKeysAreIds blacklistManager (deferredSlots (conflictResolver blacklistManager)) \<and>
      (\<forall>r ds i. isBlocked releasedResolver (r\<lparr>deferredSlots := ds\<rparr>) i =
         isBlocked releasedResolver r i)"
    using loop blacklist_invariant by (simp add: releasedResolver_def)
  have drained: "releaseSlotDependencies releasedResolver exampleEnv blacklistManager 100 = m3 \<and>
      deferredSlots (conflictResolver m3) =
        filter (\<lambda>k. \<not> gateAdmits releasedResolver exampleEnv
                      (blacklistManager\<lparr>conflictResolver := conflictResolver blacklistManager\<rparr>) k)
          (deferredSlots (conflictResolver blacklistManager))"
    using drain_removes_admitted_only [where ops = releasedResolver and e = exampleEnv
        and m = blacklistManager and a = 100 and resolver = "conflictResolver blacklistManager"
        and blocked = "[]" and ?m2.0 = blacklistManager and ?m3.0 = m3,
        THEN conjunct1, THEN mp, OF hyp] .
  have final: "deferredSlots (conflictResolver m3) = [''b.box'']"
    using drained unfolding same ds by (simp add: blacklist_admits)
  have free: "isBlocked releasedResolver (conflictResolver blacklistManager) ''b.box'' = Inr False"
    by (simp add: releasedResolver_def)
  from drained final free ds blacklist_admits show ?thesis
    by (simp add: m3_def)
qed

text \<open>
  The claim as the specification states it removes every member that is no longer blocked,
  whether or not it passes the gate. Here \<^verbatim>\<open>b.box\<close> is not blocked and the gate refuses
  it on its referrer blacklist: after the drain it is still in the deferred set.
\<close>

theorem drain_keeps_refused_counterexample:
  "isBlocked releasedResolver (conflictResolver blacklistManager) ''b.box'' = Inr False \<and>
   deferredSlots (conflictResolver blacklistManager) = [''b.box'', ''c.box''] \<and>
   deferredSlots (conflictResolver
      (releaseSlotDependencies releasedResolver exampleEnv blacklistManager 100)) = [''b.box''] \<and>
   deferredSlots (conflictResolver
      (slotRenderEnded releasedResolver exampleEnv blacklistManager ''a.box'' True []))
     = [''b.box'']"
  using blacklist_release blacklist_render blacklist_registry
  by (simp add: releasedResolver_def)

text \<open>
  Claim C6, as amended. An exception raised inside a predicate of the gate while one
  deferred slot is evaluated does not stop the drain: the gate turns it into \<^verbatim>\<open>null\<close>,
  the slot stays deferred, and the loop goes on with the remaining members. An exception
  raised after the gate has admitted a slot, while the slot is defined or shown, ends the
  pass: the single \<^verbatim>\<open>try\<close> around the loop catches it, and the members after that slot
  are not evaluated in this pass.
\<close>

theorem drain_isolates_gate_errors:
  "(map_of (adSlots m) k = Some a \<and> admission ops e (lateInit e m a) (Some a) = Inl err \<longrightarrow>
      showNonBlocked ops e m (k # ks) = showNonBlocked ops e (lateInit e m a) ks \<and>
      deferredSlots (conflictResolver (lateInit e m a)) = deferredSlots (conflictResolver m)) \<and>
   (drainMember ops e m k = (Some err, m') \<longrightarrow>
      showNonBlocked ops e m (k # ks) = (Some err, m') \<and>
      (\<exists>a. map_of (adSlots m) k = Some a \<and>
           truthy (fst (shouldSendRequestToDfp ops e m (Some a)))))"
proof (intro conjI impI)
  assume h: "map_of (adSlots m) k = Some a \<and> admission ops e (lateInit e m a) (Some a) = Inl err"
  then have "drainMember ops e m k = (None, lateInit e m a)"
    using drainMember_gate_error [of m k a ops e err] by simp
  then show "showNonBlocked ops e m (k # ks) = showNonBlocked ops e (lateInit e m a) ks"
    by simp
  show "deferredSlots (conflictResolver (lateInit e m a)) = deferredSlots (conflictResolver m)"
    by (simp add: resolver_lateInit)
next
  assume h: "drainMember ops e m k = (Some err, m')"
  then show "showNonBlocked ops e m (k # ks) = (Some err, m')"
    by simp
  from h show "\<exists>a. map_of (adSlots m) k = Some a \<and>
           truthy (fst (shouldSendRequestToDfp ops e m (Some a)))"
    by (rule drainMember_threw_admitted)
qed

theorem drain_isolates_gate_errors_witness:
  "admission releasedResolver exampleEnv typelessManager (Some 101) = Inl TypeError \<and>
   showNonBlocked releasedResolver exampleEnv typelessManager [''b.box'', ''c.box''] =
     showNonBlocked releasedResolver exampleEnv typelessManager [''c.box''] \<and>
   deferredSlots (conflictResolver
      (releaseSlotDependencies releasedResolver exampleEnv typelessManager 100)) = [''b.box''] \<and>
   events (releaseSlotDependencies releasedResolver exampleEnv typelessManager 100) =
     [GptDefine False ''c.box'', CmdShow 102] \<and>
   fst (showNonBlocked releasedResolver exampleEnv misconfiguredManager [''b.box'', ''c.box''])
     = Some TypeError"
proof -
  have h: "map_of (adSlots typelessManager) ''b.box'' = Some 101 \<and>
      admission releasedResolver exampleEnv (lateInit exampleEnv typelessManager 101) (Some 101)
        = Inl TypeError"
    by (simp add: typeless_registry typeless_lateInit typeless_admission)
  have a: "showNonBlocked releasedResolver exampleEnv typelessManager [''b.box'', ''c.box''] =
     showNonBlocked releasedResolver exampleEnv typelessManager [''c.box'']"
    using drain_isolates_gate_errors [where m = typelessManager and k = "''b.box''" and a = 101
        and ops = releasedResolver and e = exampleEnv and err = TypeError and ks = "[''c.box'']",
        THEN conjunct1] h
    unfolding typeless_lateInit by blast
  have d: "drainMember releasedResolver exampleEnv misconfiguredManager ''b.box'' =
      (Some TypeError, snd (drainMember releasedResolver exampleEnv misconfiguredManager ''b.box''))"
    using misconfigured_member
    by (cases "drainMember releasedResolver exampleEnv misconfiguredManager ''b.box''") simp
  have b: "showNonBlocked releasedResolver exampleEnv misconfiguredManager [''b.box'', ''c.box'']
      = (Some TypeError, snd (drainMember releasedResolver exampleEnv misconfiguredManager ''b.box''))"
    using drain_isolates_gate_errors [where m = misconfiguredManager and k = "''b.box''"
        and ops = releasedResolver and e = exampleEnv and err = TypeError and ks = "[''c.box'']"
        and m' = "snd (drainMember releasedResolver exampleEnv misconfiguredManager ''b.box'')",
        THEN conjunct2] d
    by blast
  from a b typeless_admission typeless_deferred typeless_events show ?thesis by simp
qed

text \<open>
  The claim as the specification states it isolates every failure. Here \<^verbatim>\<open>b.box\<close> is
  admitted and then fails while it is defined (a value of its size mapping is not an
  array); \<^verbatim>\<open>c.box\<close>, which the gate would admit, is left in the deferred set and is not
  shown. With \<^verbatim>\<open>b.box\<close> well configured the same drain releases both.
\<close>

theorem drain_aborts_counterexample:
  "deferredSlots (conflictResolver misconfiguredManager) = [''b.box'', ''c.box''] \<and>
   fst (shouldSendRequestToDfp releasedResolver exampleEnv misconfiguredManager (Some 102))
     = JBool True \<and>
   deferredSlots (conflictResolver
      (releaseSlotDependencies releasedResolver exampleEnv misconfiguredManager 100)) = [''c.box''] \<and>
   events (releaseSlotDependencies releasedResolver exampleEnv misconfiguredManager 100) =
     [GptDefine False ''b.box'', AddSize ''tierA'' [Dims [300, 250]]] \<and>
   deferredSlots (conflictResolver
      (releaseSlotDependencies releasedResolver exampleEnv exampleManager 100)) = [] \<and>
   events (releaseSlotDependencies releasedResolver exampleEnv exampleManager 100) =
     [GptDefine False ''b.box'', CmdShow 101, GptDefine False ''c.box'', CmdShow 102]"
proof -
  have "deferredSlots (conflictResolver misconfiguredManager) = [''b.box'', ''c.box'']"
    by (simp add: misconfiguredManager_def exampleManager_def)
  with misconfigured_gate misconfigured_deferred misconfigured_events example_deferred
    example_events
  show ?thesis by blast
qed

end
